theory Spec2Isabelle
  imports Main "HOL-Library.Word" "HOL-Library.Sublist"
begin

section \<open>Virtual joystick over the kernel's input-injection device (joystick.go)\<close>

text \<open>
  The Go package drives one character device through open, ioctl, write and close.
  The model threads an explicit \<open>world\<close> through every function: the list of kernel
  calls made so far, in order, and the handles that are open. Whether a kernel call
  succeeds is not decided by the program, so it is a parameter: the \<open>kernel\<close> field of
  the platform answers each call, given the calls made before it. The numeric constants
  of the kernel interface (\<open>evKey\<close>, \<open>uiSetAbsBit\<close>, \<open>absSize\<close>, ...) are declared
  outside joystick.go and are fields of the platform as well.
\<close>

subsection \<open>Data\<close>

type_synonym u8 = "8 word"
type_synonym u16 = "16 word"
type_synonym i32 = "32 word"
type_synonym i64 = "64 word"

text \<open>\<open>uintptr\<close>: the conversions \<open>uintptr(evKey)\<close>, \<open>uintptr(btn.ID)\<close> and
  \<open>uintptr(axis.ID)\<close> widen an unsigned 16-bit value, so the value is kept as a \<open>nat\<close>.\<close>

type_synonym uintptr = nat

type_synonym handle = nat

text \<open>\<open>type Axis struct { ID uint16; Min int32; Max int32 }\<close>\<close>

record Axis =
  axisID :: u16
  axisMin :: i32
  axisMax :: i32

text \<open>\<open>type Button struct { ID uint16 }\<close>\<close>

record Button =
  buttonID :: u16

text \<open>\<open>syscall.Timeval\<close> and the event record \<open>inputEvent\<close>.\<close>

record Timeval =
  Sec :: i64
  Usec :: i64

record inputEvent =
  Time :: Timeval
  Type :: u16
  Code :: u16
  Value :: i32

text \<open>The descriptor handed to the kernel: the fields joystick.go sets.\<close>

record inputID =
  Bustype :: u16
  Vendor :: u16
  Product :: u16
  Version :: u16

record uinputUserDev =
  Name :: "u8 list"
  ID :: inputID
  Absmin :: "i32 list"
  Absmax :: "i32 list"

text \<open>\<open>type vJoystick struct { name []byte; deviceFile *os.File }\<close>\<close>

record vJoystick =
  name :: "u8 list"
  deviceFile :: handle

text \<open>
  The bytes written to the device are kept as the event record they encode: the byte
  layout is fixed by the kernel interface and plays no part in what follows.
\<close>

datatype buffer = EventBytes inputEvent

text \<open>The kernel calls the package makes.\<close>

datatype call =
    SysOpen string
  | SysIoctl handle uintptr uintptr
  | SysWrite handle buffer
  | SysCreate handle uinputUserDev
  | SysClose handle

text \<open>
  Errors. joystick.go builds its errors with \<open>fmt.Errorf\<close>; the constructors are the
  kinds the specification gives them. \<open>OSError\<close> is the error of a failed kernel call
  before joystick.go wraps it.
\<close>

datatype error =
    InvalidPathError
  | InvalidNameError
  | DeviceOpenError
  | CapabilityRegistrationError
  | DeviceActivationError
  | EventWriteError
  | CloseError
  | OSError

text \<open>A Go function returns a value, returns an error, or panics (an array index out
  of range).\<close>

datatype 'a outcome = Ok 'a | Err error | Panic

record platform =
  evSyn :: u16
  evKey :: u16
  evAbs :: u16
  synReport :: u16
  uiSetEvBit :: uintptr
  uiSetKeyBit :: uintptr
  uiSetAbsBit :: uintptr
  absSize :: nat
  uinputMaxNameSize :: nat
  pathOk :: "string \<Rightarrow> bool"
  kernel :: "call list \<Rightarrow> call \<Rightarrow> bool"

record world =
  trace :: "call list"
  handles :: "handle list"

subsection \<open>The operating system\<close>

text \<open>One kernel call: the platform answers it from the calls made so far, and the call
  is appended to the trace.\<close>

definition sys :: "platform \<Rightarrow> call \<Rightarrow> world \<Rightarrow> bool \<times> world" where
  "sys P c w = (kernel P (trace w) c, w\<lparr>trace := trace w @ [c]\<rparr>)"

text \<open>A handle that is not open.\<close>

definition fresh :: "handle list \<Rightarrow> handle" where
  "fresh hs = Suc (fold max hs 0)"

text \<open>\<open>os.OpenFile\<close>: on success a new handle is open.\<close>

definition fileOpen :: "platform \<Rightarrow> string \<Rightarrow> world \<Rightarrow> (error + handle) \<times> world" where
  "fileOpen P path w =
     (case sys P (SysOpen path) w of
        (False, w1) \<Rightarrow> (Inl OSError, w1)
      | (True, w1) \<Rightarrow>
          (Inr (fresh (handles w)), w1\<lparr>handles := fresh (handles w) # handles w1\<rparr>))"

text \<open>\<open>(*os.File).Write\<close>\<close>

definition fileWrite :: "platform \<Rightarrow> handle \<Rightarrow> buffer \<Rightarrow> world \<Rightarrow> error option \<times> world" where
  "fileWrite P f buf w =
     (case sys P (SysWrite f buf) w of
        (False, w1) \<Rightarrow> (Some OSError, w1)
      | (True, w1) \<Rightarrow> (None, w1))"

text \<open>\<open>(*os.File).Close\<close>: the handle is released whatever the call reports.\<close>

definition fileClose :: "platform \<Rightarrow> handle \<Rightarrow> world \<Rightarrow> error option \<times> world" where
  "fileClose P f w =
     (case sys P (SysClose f) w of
        (ok, w1) \<Rightarrow>
          (if ok then None else Some OSError, w1\<lparr>handles := removeAll f (handles w1)\<rparr>))"

subsection \<open>Helpers of the package that joystick.go calls\<close>

text \<open>Modelled from the spec: \<open>validateDevicePath\<close> is not in joystick.go. "Validate the
  device-node path is acceptable for opening a privileged character-special file; fails
  with InvalidPathError otherwise." Which paths are acceptable is the platform's
  \<open>pathOk\<close>.\<close>

definition validateDevicePath :: "platform \<Rightarrow> string \<Rightarrow> error option" where
  "validateDevicePath P path = (if pathOk P path then None else Some InvalidPathError)"

text \<open>Modelled from the spec: \<open>validateUinputName\<close> is not in joystick.go. "Validate the
  name is non-empty and fits the fixed field width; fails with InvalidNameError
  otherwise."\<close>

definition validateUinputName :: "platform \<Rightarrow> u8 list \<Rightarrow> error option" where
  "validateUinputName P nm =
     (if nm = [] then Some InvalidNameError
      else if uinputMaxNameSize P < length nm then Some InvalidNameError
      else None)"

text \<open>Modelled from the spec: \<open>toUinputName\<close> is not in joystick.go. The descriptor's
  name is a "fixed-width byte buffer": the name, zero-filled to the field width.\<close>

definition toUinputName :: "platform \<Rightarrow> u8 list \<Rightarrow> u8 list" where
  "toUinputName P nm =
     take (uinputMaxNameSize P) nm @ replicate (uinputMaxNameSize P - length nm) 0"

text \<open>Modelled from the spec: \<open>ioctl\<close> is not in joystick.go. It is the
  "control-code call" on the handle, \<open>ioctl(deviceFile, cmd, ptr)\<close>: one kernel call
  with a control code and an argument, which the kernel accepts or rejects.\<close>

definition ioctl :: "platform \<Rightarrow> handle \<Rightarrow> uintptr \<Rightarrow> uintptr \<Rightarrow> world \<Rightarrow> error option \<times> world" where
  "ioctl P f cmd ptr w =
     (case sys P (SysIoctl f cmd ptr) w of
        (False, w1) \<Rightarrow> (Some OSError, w1)
      | (True, w1) \<Rightarrow> (None, w1))"

text \<open>Modelled from the spec: \<open>createDeviceFile\<close> is not in joystick.go. "Open the kernel
  device-creation handle; fails with DeviceOpenError wrapping the underlying I/O
  error."\<close>

definition createDeviceFile :: "platform \<Rightarrow> string \<Rightarrow> world \<Rightarrow> (error + handle) \<times> world" where
  "createDeviceFile P path w = fileOpen P path w"

text \<open>Modelled from the spec: \<open>registerDevice\<close> is not in joystick.go. "Register the
  capability class on the handle (a single control-code call)."\<close>

definition registerDevice :: "platform \<Rightarrow> handle \<Rightarrow> uintptr \<Rightarrow> world \<Rightarrow> error option \<times> world" where
  "registerDevice P f evType w = ioctl P f (uiSetEvBit P) evType w"

text \<open>Modelled from the spec: \<open>createUsbDevice\<close> is not in joystick.go. "Issue the final
  device-activation call; on failure, close the handle and fail with
  DeviceActivationError." The descriptor is the argument of that call.\<close>

definition createUsbDevice :: "platform \<Rightarrow> handle \<Rightarrow> uinputUserDev \<Rightarrow> world \<Rightarrow> handle outcome \<times> world" where
  "createUsbDevice P f dev w =
     (case sys P (SysCreate f dev) w of
        (False, w1) \<Rightarrow> (Err DeviceActivationError, snd (fileClose P f w1))
      | (True, w1) \<Rightarrow> (Ok f, w1))"

text \<open>Modelled from the spec: \<open>inputEventToBuffer\<close> is not in joystick.go. The event
  record is a "fixed-layout binary structure"; encoding one does not fail.\<close>

definition inputEventToBuffer :: "inputEvent \<Rightarrow> error + buffer" where
  "inputEventToBuffer e = Inr (EventBytes e)"

text \<open>Modelled from the spec: the synchronization event that \<open>syncEvents\<close> writes is
  not in joystick.go. It is an event record like the others, with a zero timestamp, the
  platform's synchronization type and code, and the value zero.\<close>

definition syncEvent :: "platform \<Rightarrow> inputEvent" where
  "syncEvent P =
     \<lparr>Time = \<lparr>Sec = 0, Usec = 0\<rparr>, Type = evSyn P, Code = synReport P, Value = 0\<rparr>"

text \<open>Modelled from the spec: \<open>syncEvents\<close> is not in joystick.go. It "issues a
  synchronization event": one more event record written to the handle; a failed write
  is an EventWriteError.\<close>

definition syncEvents :: "platform \<Rightarrow> handle \<Rightarrow> world \<Rightarrow> error option \<times> world" where
  "syncEvents P f w =
     (case inputEventToBuffer (syncEvent P) of
        Inl err \<Rightarrow> (Some EventWriteError, w)
      | Inr buf \<Rightarrow>
          (case fileWrite P f buf w of
             (Some err, w1) \<Rightarrow> (Some EventWriteError, w1)
           | (None, w1) \<Rightarrow> (None, w1)))"


subsection \<open>joystick.go\<close>

text \<open>The loop over \<open>buttons\<close> in \<open>createJoystick\<close> (lines 101 to 107). A failed
  registration closes the handle and leaves the function with the error.\<close>

fun registerButtons :: "platform \<Rightarrow> handle \<Rightarrow> Button list \<Rightarrow> world \<Rightarrow> error option \<times> world" where
  "registerButtons P f [] w = (None, w)"
| "registerButtons P f (btn # btns) w =
     (case ioctl P f (uiSetKeyBit P) (unat (buttonID btn)) w of
        (Some err, w1) \<Rightarrow> (Some CapabilityRegistrationError, snd (fileClose P f w1))
      | (None, w1) \<Rightarrow> registerButtons P f btns w1)"

text \<open>The loop over \<open>axes\<close> (lines 118 to 126), with the two arrays it fills. The arrays
  have \<open>absSize\<close> entries; Go checks the index of \<open>absMin[axis.ID]\<close> and panics when it
  is not below \<open>absSize\<close>.\<close>

fun registerAxes ::
  "platform \<Rightarrow> handle \<Rightarrow> Axis list \<Rightarrow> i32 list \<times> i32 list \<Rightarrow> world
     \<Rightarrow> (i32 list \<times> i32 list) outcome \<times> world" where
  "registerAxes P f [] (absMin, absMax) w = (Ok (absMin, absMax), w)"
| "registerAxes P f (axis # rest) (absMin, absMax) w =
     (case ioctl P f (uiSetAbsBit P) (unat (axisID axis)) w of
        (Some err, w1) \<Rightarrow> (Err CapabilityRegistrationError, snd (fileClose P f w1))
      | (None, w1) \<Rightarrow>
          (if unat (axisID axis) < absSize P
           then registerAxes P f rest
                  (absMin[unat (axisID axis) := axisMin axis],
                   absMax[unat (axisID axis) := axisMax axis]) w1
           else (Panic, w1)))"

definition createJoystick ::
  "platform \<Rightarrow> string \<Rightarrow> u8 list \<Rightarrow> Axis list \<Rightarrow> Button list \<Rightarrow> world \<Rightarrow> handle outcome \<times> world" where
  "createJoystick P path nm axes buttons w =
     (case createDeviceFile P path w of
        (Inl err, w1) \<Rightarrow> (Err DeviceOpenError, w1)
      | (Inr f, w1) \<Rightarrow>
     (case registerDevice P f (unat (evKey P)) w1 of
        (Some err, w2) \<Rightarrow> (Err CapabilityRegistrationError, snd (fileClose P f w2))
      | (None, w2) \<Rightarrow>
     (case registerButtons P f buttons w2 of
        (Some err, w3) \<Rightarrow> (Err err, w3)
      | (None, w3) \<Rightarrow>
     (case registerDevice P f (unat (evAbs P)) w3 of
        (Some err, w4) \<Rightarrow> (Err CapabilityRegistrationError, snd (fileClose P f w4))
      | (None, w4) \<Rightarrow>
     (case registerAxes P f axes
             (replicate (absSize P) 0, replicate (absSize P) 0) w4 of
        (Err err, w5) \<Rightarrow> (Err err, w5)
      | (Panic, w5) \<Rightarrow> (Panic, w5)
      | (Ok (absMin, absMax), w5) \<Rightarrow>
          createUsbDevice P f
            \<lparr>Name = toUinputName P nm,
             ID = \<lparr>Bustype = 0x06, Vendor = 0x01, Product = 0x02, Version = 0x03\<rparr>,
             Absmin = absMin,
             Absmax = absMax\<rparr> w5)))))"

definition CreateJoystick ::
  "platform \<Rightarrow> string \<Rightarrow> u8 list \<Rightarrow> Axis list \<Rightarrow> Button list \<Rightarrow> world \<Rightarrow> vJoystick outcome \<times> world" where
  "CreateJoystick P path nm axes buttons w =
     (case validateDevicePath P path of
        Some err \<Rightarrow> (Err err, w)
      | None \<Rightarrow>
     (case validateUinputName P nm of
        Some err \<Rightarrow> (Err err, w)
      | None \<Rightarrow>
     (case createJoystick P path nm axes buttons w of
        (Err err, w1) \<Rightarrow> (Err err, w1)
      | (Panic, w1) \<Rightarrow> (Panic, w1)
      | (Ok fd, w1) \<Rightarrow> (Ok \<lparr>name = nm, deviceFile = fd\<rparr>, w1))))"

definition sendAxisEvent :: "platform \<Rightarrow> handle \<Rightarrow> u16 \<Rightarrow> i32 \<Rightarrow> world \<Rightarrow> error option \<times> world" where
  "sendAxisEvent P f axis pos w =
     (case inputEventToBuffer
             \<lparr>Time = \<lparr>Sec = 0, Usec = 0\<rparr>, Type = evAbs P, Code = axis, Value = pos\<rparr> of
        Inl err \<Rightarrow> (Some EventWriteError, w)
      | Inr buf \<Rightarrow>
          (case fileWrite P f buf w of
             (Some err, w1) \<Rightarrow> (Some EventWriteError, w1)
           | (None, w1) \<Rightarrow> syncEvents P f w1))"

definition SetAxis :: "platform \<Rightarrow> vJoystick \<Rightarrow> u16 \<Rightarrow> i32 \<Rightarrow> world \<Rightarrow> error option \<times> world" where
  "SetAxis P vj axis x w = sendAxisEvent P (deviceFile vj) axis x w"

definition SetButton :: "platform \<Rightarrow> vJoystick \<Rightarrow> u16 \<Rightarrow> bool \<Rightarrow> world \<Rightarrow> error option \<times> world" where
  "SetButton P vj button on w =
     (let state = (if on then 1 else 0) in
      case inputEventToBuffer
             \<lparr>Time = \<lparr>Sec = 0, Usec = 0\<rparr>, Type = evKey P, Code = button, Value = state\<rparr> of
        Inl err \<Rightarrow> (Some EventWriteError, w)
      | Inr buf \<Rightarrow>
          (case fileWrite P (deviceFile vj) buf w of
             (Some err, w1) \<Rightarrow> (Some EventWriteError, w1)
           | (None, w1) \<Rightarrow> syncEvents P (deviceFile vj) w1))"


subsection \<open>Method calls on a joystick\<close>




section \<open>The specification's side\<close>

text \<open>
  These definitions are not translations of code: they say what the specification
  expects, and the theorems below compare the code with them.

  \<open>accepted P tr cs\<close>: the kernel accepts every call of \<open>cs\<close>, made one after the other
  after the calls \<open>tr\<close>. \<open>attempt P tr cs\<close>: the calls of \<open>cs\<close> up to and including the
  first one the kernel rejects.
\<close>

fun accepted :: "platform \<Rightarrow> call list \<Rightarrow> call list \<Rightarrow> bool" where
  "accepted P tr [] = True"
| "accepted P tr (c # cs) = (kernel P tr c \<and> accepted P (tr @ [c]) cs)"

fun attempt :: "platform \<Rightarrow> call list \<Rightarrow> call list \<Rightarrow> call list" where
  "attempt P tr [] = []"
| "attempt P tr (c # cs) = c # (if kernel P tr c then attempt P (tr @ [c]) cs else [])"

text \<open>The registration call of each button and of each axis, in declaration order.\<close>

definition buttonCalls :: "platform \<Rightarrow> handle \<Rightarrow> Button list \<Rightarrow> call list" where
  "buttonCalls P f buttons = map (\<lambda>btn. SysIoctl f (uiSetKeyBit P) (unat (buttonID btn))) buttons"

definition axisCalls :: "platform \<Rightarrow> handle \<Rightarrow> Axis list \<Rightarrow> call list" where
  "axisCalls P f axes = map (\<lambda>axis. SysIoctl f (uiSetAbsBit P) (unat (axisID axis))) axes"

text \<open>A range table after the declared axes have been recorded into \<open>t\<close>, first to last.\<close>

definition rangeTable :: "(Axis \<Rightarrow> i32) \<Rightarrow> Axis list \<Rightarrow> i32 list \<Rightarrow> i32 list" where
  "rangeTable sel axes t = fold (\<lambda>axis t. t[unat (axisID axis) := sel axis]) axes t"

text \<open>The descriptor of section 4.1, step 8, and the kernel calls of steps 3 to 8 in the
  order the specification lists them.\<close>

definition descriptor :: "platform \<Rightarrow> u8 list \<Rightarrow> Axis list \<Rightarrow> uinputUserDev" where
  "descriptor P nm axes =
     \<lparr>Name = toUinputName P nm,
      ID = \<lparr>Bustype = 0x06, Vendor = 0x01, Product = 0x02, Version = 0x03\<rparr>,
      Absmin = rangeTable axisMin axes (replicate (absSize P) 0),
      Absmax = rangeTable axisMax axes (replicate (absSize P) 0)\<rparr>"

definition registrationCalls :: "platform \<Rightarrow> handle \<Rightarrow> string \<Rightarrow> Button list \<Rightarrow> call list" where
  "registrationCalls P f path buttons =
     [SysOpen path, SysIoctl f (uiSetEvBit P) (unat (evKey P))]
     @ buttonCalls P f buttons
     @ [SysIoctl f (uiSetEvBit P) (unat (evAbs P))]"

definition setupCalls ::
  "platform \<Rightarrow> handle \<Rightarrow> string \<Rightarrow> u8 list \<Rightarrow> Axis list \<Rightarrow> Button list \<Rightarrow> call list" where
  "setupCalls P f path nm axes buttons =
     registrationCalls P f path buttons
     @ axisCalls P f axes
     @ [SysCreate f (descriptor P nm axes)]"

text \<open>\<open>overrun P f tr axes\<close>: the loop over the axes, entered after the calls \<open>tr\<close>,
  comes to a table write whose index is not below \<open>absSize\<close>. That is, there is a
  declared axis with such a code, and the kernel accepts the registration of every axis
  up to and including the first of them.\<close>

fun overrun :: "platform \<Rightarrow> handle \<Rightarrow> call list \<Rightarrow> Axis list \<Rightarrow> bool" where
  "overrun P f tr [] = False"
| "overrun P f tr (axis # rest) =
     (kernel P tr (SysIoctl f (uiSetAbsBit P) (unat (axisID axis)))
      \<and> (if unat (axisID axis) < absSize P
         then overrun P f (tr @ [SysIoctl f (uiSetAbsBit P) (unat (axisID axis))]) rest
         else True))"

text \<open>The last declaration of an axis with code \<open>i\<close>, if there is one.\<close>

definition lastDeclared :: "Axis list \<Rightarrow> nat \<Rightarrow> Axis option" where
  "lastDeclared axes i = find (\<lambda>axis. unat (axisID axis) = i) (rev axes)"

section \<open>An example platform\<close>

text \<open>The constants as the Linux headers give them, a kernel that accepts every call, one
  that accepts every call but the \<open>n\<close>-th, and one that accepts an axis code only below
  a bound.\<close>

definition examplePlatform :: "(call list \<Rightarrow> call \<Rightarrow> bool) \<Rightarrow> platform" where
  "examplePlatform K =
     \<lparr>evSyn = 0x00, evKey = 0x01, evAbs = 0x03, synReport = 0,
      uiSetEvBit = 0x40045564, uiSetKeyBit = 0x40045565, uiSetAbsBit = 0x40045567,
      absSize = 64, uinputMaxNameSize = 80,
      pathOk = (\<lambda>path. path \<noteq> []),
      kernel = K\<rparr>"

definition acceptAll :: "call list \<Rightarrow> call \<Rightarrow> bool" where
  "acceptAll tr c = True"

definition rejectNth :: "nat \<Rightarrow> call list \<Rightarrow> call \<Rightarrow> bool" where
  "rejectNth n tr c = (length tr \<noteq> n)"

definition acceptAxesBelow :: "nat \<Rightarrow> call list \<Rightarrow> call \<Rightarrow> bool" where
  "acceptAxesBelow n tr c =
     (case c of
        SysIoctl h cmd a \<Rightarrow> (if cmd = 0x40045567 then a < n else True)
      | _ \<Rightarrow> True)"

definition world0 :: world where
  "world0 = \<lparr>trace = [], handles = []\<rparr>"

definition testPad :: "u8 list" where
  "testPad = [0x54, 0x65, 0x73, 0x74, 0x50, 0x61, 0x64]"

section \<open>Lemmas\<close>

lemma fold_max_ge: "a \<le> fold max hs (a::nat)"
  by (induction hs arbitrary: a) (auto intro: order_trans [OF max.cobounded2])

lemma fold_max_mem: "x \<in> set hs \<Longrightarrow> x \<le> fold max hs (a::nat)"
proof (induction hs arbitrary: a)
  case Nil
  then show ?case by simp
next
  case (Cons h hs)
  show ?case
  proof (cases "x = h")
    case True
    have "h \<le> max h a" by simp
    also have "\<dots> \<le> fold max hs (max h a)" by (rule fold_max_ge)
    finally show ?thesis using True by simp
  next
    case False
    with Cons show ?thesis by simp
  qed
qed

lemma fresh_notin: "fresh hs \<notin> set hs"
proof
  assume "fresh hs \<in> set hs"
  then have "fresh hs \<le> fold max hs 0" by (rule fold_max_mem)
  then show False by (simp add: fresh_def)
qed

lemma accepted_append:
  "accepted P tr (xs @ ys) = (accepted P tr xs \<and> accepted P (tr @ xs) ys)"
  by (induction xs arbitrary: tr) auto

lemma attempt_accepted: "accepted P tr cs \<Longrightarrow> attempt P tr cs = cs"
  by (induction cs arbitrary: tr) auto

lemma attempt_prefix: "prefix (attempt P tr cs) cs"
  by (induction cs arbitrary: tr) auto

lemma attempt_append:
  "attempt P tr (xs @ ys) =
     (if accepted P tr xs then xs @ attempt P (tr @ xs) ys else attempt P tr xs)"
  by (induction xs arbitrary: tr) auto

lemma buttonCalls_simps:
  "buttonCalls P f [] = []"
  "buttonCalls P f (btn # btns) =
     SysIoctl f (uiSetKeyBit P) (unat (buttonID btn)) # buttonCalls P f btns"
  by (simp_all add: buttonCalls_def)

lemma axisCalls_simps:
  "axisCalls P f [] = []"
  "axisCalls P f (axis # rest) =
     SysIoctl f (uiSetAbsBit P) (unat (axisID axis)) # axisCalls P f rest"
  by (simp_all add: axisCalls_def)

lemma ioctl_eq:
  "ioctl P f cmd ptr w =
     (if kernel P (trace w) (SysIoctl f cmd ptr) then None else Some OSError,
      w\<lparr>trace := trace w @ [SysIoctl f cmd ptr]\<rparr>)"
  by (simp add: ioctl_def sys_def)

lemma fileClose_snd:
  "snd (fileClose P f w) =
     w\<lparr>trace := trace w @ [SysClose f], handles := removeAll f (handles w)\<rparr>"
  by (simp add: fileClose_def sys_def)

lemma registerButtons_eq:
  "registerButtons P f bs w =
     (if accepted P (trace w) (buttonCalls P f bs)
      then (None, w\<lparr>trace := trace w @ buttonCalls P f bs\<rparr>)
      else (Some CapabilityRegistrationError,
            w\<lparr>trace := trace w @ attempt P (trace w) (buttonCalls P f bs) @ [SysClose f],
              handles := removeAll f (handles w)\<rparr>))"
proof (induction bs arbitrary: w)
  case Nil
  show ?case by (simp add: buttonCalls_simps)
next
  case (Cons b bs)
  show ?case
    by (simp add: Cons buttonCalls_simps ioctl_eq fileClose_snd)
qed

lemma registerAxes_Ok:
  "accepted P (trace w) (axisCalls P f axes) \<Longrightarrow>
   \<forall>axis \<in> set axes. unat (axisID axis) < absSize P \<Longrightarrow>
   registerAxes P f axes (mn, mx) w =
     (Ok (rangeTable axisMin axes mn, rangeTable axisMax axes mx),
      w\<lparr>trace := trace w @ axisCalls P f axes\<rparr>)"
proof (induction axes arbitrary: w mn mx)
  case Nil
  show ?case by (simp add: axisCalls_simps rangeTable_def)
next
  case (Cons a axes)
  then show ?case
    by (simp add: axisCalls_simps ioctl_eq rangeTable_def)
qed

lemma registerAxes_Ok_conv:
  "registerAxes P f axes (mn, mx) w = (Ok t, w') \<Longrightarrow>
   accepted P (trace w) (axisCalls P f axes) \<and>
   (\<forall>axis \<in> set axes. unat (axisID axis) < absSize P)"
proof (induction axes arbitrary: w mn mx)
  case Nil
  show ?case by (simp add: axisCalls_simps)
next
  case (Cons a axes)
  from Cons.prems have k: "kernel P (trace w) (SysIoctl f (uiSetAbsBit P) (unat (axisID a)))"
    by (simp add: ioctl_eq split: if_splits)
  from Cons.prems k have b: "unat (axisID a) < absSize P"
    by (simp add: ioctl_eq split: if_splits)
  from Cons.prems k b have
    "registerAxes P f axes (mn[unat (axisID a) := axisMin a], mx[unat (axisID a) := axisMax a])
       (w\<lparr>trace := trace w @ [SysIoctl f (uiSetAbsBit P) (unat (axisID a))]\<rparr>) = (Ok t, w')"
    by (simp add: ioctl_eq)
  from Cons.IH [OF this] k b show ?case
    by (simp add: axisCalls_simps)
qed

lemma registerAxes_Err:
  "registerAxes P f axes (mn, mx) w = (Err e, w') \<Longrightarrow>
   e = CapabilityRegistrationError \<and>
   \<not> accepted P (trace w) (axisCalls P f axes) \<and>
   handles w' = removeAll f (handles w) \<and>
   trace w' = trace w @ attempt P (trace w) (axisCalls P f axes) @ [SysClose f]"
proof (induction axes arbitrary: w mn mx)
  case Nil
  then show ?case by simp
next
  case (Cons a axes)
  let ?c = "SysIoctl f (uiSetAbsBit P) (unat (axisID a))"
  show ?case
  proof (cases "kernel P (trace w) ?c")
    case False
    with Cons.prems show ?thesis
      by (auto simp add: ioctl_eq fileClose_snd axisCalls_simps)
  next
    case True
    with Cons.prems have b: "unat (axisID a) < absSize P"
      by (simp add: ioctl_eq split: if_splits)
    from Cons.prems True b have
      "registerAxes P f axes (mn[unat (axisID a) := axisMin a], mx[unat (axisID a) := axisMax a])
         (w\<lparr>trace := trace w @ [?c]\<rparr>) = (Err e, w')"
      by (simp add: ioctl_eq)
    from Cons.IH [OF this] True show ?thesis
      by (simp add: axisCalls_simps)
  qed
qed

lemma registerAxes_Panic:
  "registerAxes P f axes (mn, mx) w = (Panic, w') \<Longrightarrow>
   handles w' = handles w \<and>
   (\<exists>cs. prefix cs (axisCalls P f axes) \<and> trace w' = trace w @ cs) \<and>
   (\<exists>axis \<in> set axes. \<not> unat (axisID axis) < absSize P \<and>
      (\<exists>tr. kernel P tr (SysIoctl f (uiSetAbsBit P) (unat (axisID axis)))))"
proof (induction axes arbitrary: w mn mx)
  case Nil
  then show ?case by simp
next
  case (Cons a axes)
  let ?c = "SysIoctl f (uiSetAbsBit P) (unat (axisID a))"
  from Cons.prems have k: "kernel P (trace w) ?c"
    by (simp add: ioctl_eq split: if_splits)
  show ?case
  proof (cases "unat (axisID a) < absSize P")
    case False
    with Cons.prems k have w': "w' = w\<lparr>trace := trace w @ [?c]\<rparr>"
      by (simp add: ioctl_eq)
    have "prefix [?c] (axisCalls P f (a # axes))"
      by (simp add: axisCalls_simps)
    with w' have "\<exists>cs. prefix cs (axisCalls P f (a # axes)) \<and> trace w' = trace w @ cs"
      by auto
    moreover from w' have "handles w' = handles w" by simp
    ultimately show ?thesis using False k by auto
  next
    case True
    with Cons.prems k have
      "registerAxes P f axes (mn[unat (axisID a) := axisMin a], mx[unat (axisID a) := axisMax a])
         (w\<lparr>trace := trace w @ [?c]\<rparr>) = (Panic, w')"
      by (simp add: ioctl_eq)
    from Cons.IH [OF this] obtain cs where
      h: "handles w' = handles w"
      and p: "prefix cs (axisCalls P f axes)"
      and t: "trace w' = (trace w @ [?c]) @ cs"
      and x: "\<exists>axis \<in> set axes. \<not> unat (axisID axis) < absSize P \<and>
               (\<exists>tr. kernel P tr (SysIoctl f (uiSetAbsBit P) (unat (axisID axis))))"
      by auto
    from p t have "prefix (?c # cs) (axisCalls P f (a # axes)) \<and> trace w' = trace w @ ?c # cs"
      by (simp add: axisCalls_simps)
    then have "\<exists>cs. prefix cs (axisCalls P f (a # axes)) \<and> trace w' = trace w @ cs" ..
    with h x show ?thesis by auto
  qed
qed

lemma createUsbDevice_eq:
  "createUsbDevice P f dev w =
     (if kernel P (trace w) (SysCreate f dev)
      then (Ok f, w\<lparr>trace := trace w @ [SysCreate f dev]\<rparr>)
      else (Err DeviceActivationError,
            w\<lparr>trace := trace w @ [SysCreate f dev, SysClose f],
              handles := removeAll f (handles w)\<rparr>))"
  by (simp add: createUsbDevice_def sys_def fileClose_snd)

lemma createDeviceFile_eq:
  "createDeviceFile P path w =
     (if kernel P (trace w) (SysOpen path)
      then (Inr (fresh (handles w)),
            w\<lparr>trace := trace w @ [SysOpen path], handles := fresh (handles w) # handles w\<rparr>)
      else (Inl OSError, w\<lparr>trace := trace w @ [SysOpen path]\<rparr>))"
  by (simp add: createDeviceFile_def fileOpen_def sys_def)

lemma removeAll_fresh: "removeAll (fresh hs) hs = hs"
  using fresh_notin [of hs] by simp

lemma world_upd:
  "w\<lparr>trace := t\<rparr> = \<lparr>trace = t, handles = handles w\<rparr>"
  "w\<lparr>handles := hs\<rparr> = \<lparr>trace = trace w, handles = hs\<rparr>"
  by (cases w, simp)+

lemma createJoystick_pre:
  "createJoystick P path nm axes buttons w =
     (if \<not> kernel P (trace w) (SysOpen path)
      then (Err DeviceOpenError, w\<lparr>trace := trace w @ [SysOpen path]\<rparr>)
      else if \<not> accepted P (trace w) (registrationCalls P (fresh (handles w)) path buttons)
      then (Err CapabilityRegistrationError,
            w\<lparr>trace := trace w
                 @ attempt P (trace w) (registrationCalls P (fresh (handles w)) path buttons)
                 @ [SysClose (fresh (handles w))]\<rparr>)
      else (case registerAxes P (fresh (handles w)) axes
                   (replicate (absSize P) 0, replicate (absSize P) 0)
                   (w\<lparr>trace := trace w @ registrationCalls P (fresh (handles w)) path buttons,
                     handles := fresh (handles w) # handles w\<rparr>) of
              (Err err, w5) \<Rightarrow> (Err err, w5)
            | (Panic, w5) \<Rightarrow> (Panic, w5)
            | (Ok (absMin, absMax), w5) \<Rightarrow>
                createUsbDevice P (fresh (handles w))
                  \<lparr>Name = toUinputName P nm,
                   ID = \<lparr>Bustype = 0x06, Vendor = 0x01, Product = 0x02, Version = 0x03\<rparr>,
                   Absmin = absMin,
                   Absmax = absMax\<rparr> w5))"
  by (simp add: createJoystick_def createDeviceFile_eq registerDevice_def ioctl_eq
      registerButtons_eq fileClose_snd registrationCalls_def accepted_append attempt_append
      removeAll_fresh world_upd)


lemma registrationCalls_open:
  "accepted P tr (registrationCalls P f path buttons) \<Longrightarrow> kernel P tr (SysOpen path)"
  by (simp add: registrationCalls_def)

lemma attempt_registrationCalls:
  "\<not> kernel P tr (SysOpen path) \<Longrightarrow>
   attempt P tr (registrationCalls P f path buttons) = [SysOpen path]"
  by (simp add: registrationCalls_def)

lemma createJoystick_Ok:
  assumes acc: "accepted P (trace w) (setupCalls P (fresh (handles w)) path nm axes buttons)"
    and bnd: "\<forall>axis \<in> set axes. unat (axisID axis) < absSize P"
  shows "createJoystick P path nm axes buttons w =
     (Ok (fresh (handles w)),
      \<lparr>trace = trace w @ setupCalls P (fresh (handles w)) path nm axes buttons,
       handles = fresh (handles w) # handles w\<rparr>)"
proof -
  let ?h = "fresh (handles w)"
  let ?reg = "registrationCalls P ?h path buttons"
  from acc have r: "accepted P (trace w) ?reg"
    and a: "accepted P (trace w @ ?reg) (axisCalls P ?h axes)"
    and c: "kernel P (trace w @ ?reg @ axisCalls P ?h axes) (SysCreate ?h (descriptor P nm axes))"
    by (simp_all add: setupCalls_def accepted_append)
  from r have o: "kernel P (trace w) (SysOpen path)" by (rule registrationCalls_open)
  let ?w4 = "w\<lparr>trace := trace w @ ?reg, handles := ?h # handles w\<rparr>"
  from a have "accepted P (trace ?w4) (axisCalls P ?h axes)" by simp
  from registerAxes_Ok [OF this bnd]
  have "registerAxes P ?h axes (replicate (absSize P) 0, replicate (absSize P) 0) ?w4 =
     (Ok (rangeTable axisMin axes (replicate (absSize P) 0),
          rangeTable axisMax axes (replicate (absSize P) 0)),
      ?w4\<lparr>trace := trace ?w4 @ axisCalls P ?h axes\<rparr>)" .
  with r o c show ?thesis
    by (simp add: createJoystick_pre createUsbDevice_eq descriptor_def setupCalls_def world_upd)
qed

lemma createJoystick_Ok_conv:
  assumes "createJoystick P path nm axes buttons w = (Ok f', w')"
  shows "accepted P (trace w) (setupCalls P (fresh (handles w)) path nm axes buttons) \<and>
         (\<forall>axis \<in> set axes. unat (axisID axis) < absSize P)"
proof -
  let ?h = "fresh (handles w)"
  let ?reg = "registrationCalls P ?h path buttons"
  let ?w4 = "w\<lparr>trace := trace w @ ?reg, handles := ?h # handles w\<rparr>"
  let ?ra = "registerAxes P ?h axes (replicate (absSize P) 0, replicate (absSize P) 0) ?w4"
  from assms have o: "kernel P (trace w) (SysOpen path)"
    by (simp add: createJoystick_pre split: if_splits)
  from assms o have r: "accepted P (trace w) ?reg"
    by (simp add: createJoystick_pre split: if_splits)
  from assms o r obtain t w5 where ra: "?ra = (Ok t, w5)"
    by (cases ?ra; cases "fst ?ra") (auto simp add: createJoystick_pre)
  obtain mn mx where t: "t = (mn, mx)" by (cases t)
  from registerAxes_Ok_conv [OF ra [unfolded t]]
  have a: "accepted P (trace w @ ?reg) (axisCalls P ?h axes)"
    and b: "\<forall>axis \<in> set axes. unat (axisID axis) < absSize P" by simp_all
  from a have "accepted P (trace ?w4) (axisCalls P ?h axes)" by simp
  from registerAxes_Ok [OF this b, of "replicate (absSize P) 0" "replicate (absSize P) 0"] ra
  have t': "t = (rangeTable axisMin axes (replicate (absSize P) 0),
                 rangeTable axisMax axes (replicate (absSize P) 0))"
    and w5: "w5 = ?w4\<lparr>trace := trace ?w4 @ axisCalls P ?h axes\<rparr>" by simp_all
  from assms o r ra t' w5
  have "kernel P (trace w @ ?reg @ axisCalls P ?h axes) (SysCreate ?h (descriptor P nm axes))"
    by (simp add: createJoystick_pre createUsbDevice_eq descriptor_def split: if_splits)
  with r a b show ?thesis
    by (simp add: setupCalls_def accepted_append)
qed

lemma createJoystick_Err:
  assumes "createJoystick P path nm axes buttons w = (Err e, w')"
  shows "\<not> accepted P (trace w) (setupCalls P (fresh (handles w)) path nm axes buttons) \<and>
         handles w' = handles w \<and>
         trace w' = trace w
            @ attempt P (trace w) (setupCalls P (fresh (handles w)) path nm axes buttons)
            @ (if kernel P (trace w) (SysOpen path) then [SysClose (fresh (handles w))] else []) \<and>
         e = (if \<not> kernel P (trace w) (SysOpen path) then DeviceOpenError
              else if accepted P (trace w)
                        (registrationCalls P (fresh (handles w)) path buttons
                         @ axisCalls P (fresh (handles w)) axes)
                   then DeviceActivationError
                   else CapabilityRegistrationError)"
proof -
  let ?h = "fresh (handles w)"
  let ?reg = "registrationCalls P ?h path buttons"
  let ?w4 = "w\<lparr>trace := trace w @ ?reg, handles := ?h # handles w\<rparr>"
  let ?ra = "registerAxes P ?h axes (replicate (absSize P) 0, replicate (absSize P) 0) ?w4"
  show ?thesis
  proof (cases "kernel P (trace w) (SysOpen path)")
    case False
    with assms have "e = DeviceOpenError" and "w' = w\<lparr>trace := trace w @ [SysOpen path]\<rparr>"
      by (simp_all add: createJoystick_pre)
    with False show ?thesis
      using registrationCalls_open [of P "trace w" ?h path buttons]
      by (auto simp add: setupCalls_def accepted_append attempt_append
          attempt_registrationCalls)
  next
    case o: True
    show ?thesis
    proof (cases "accepted P (trace w) ?reg")
      case False
      with assms o have "e = CapabilityRegistrationError"
        and "w' = w\<lparr>trace := trace w @ attempt P (trace w) ?reg @ [SysClose ?h]\<rparr>"
        by (simp_all add: createJoystick_pre)
      with False o show ?thesis
        by (simp add: setupCalls_def accepted_append attempt_append)
    next
      case r: True
      show ?thesis
      proof (cases ?ra)
        case (Pair res w5)
        show ?thesis
        proof (cases res)
          case (Ok t)
          obtain mn mx where t: "t = (mn, mx)" by (cases t)
          from Pair Ok t have ra: "?ra = (Ok (mn, mx), w5)" by simp
          from registerAxes_Ok_conv [OF ra]
          have a: "accepted P (trace w @ ?reg) (axisCalls P ?h axes)"
            and b: "\<forall>axis \<in> set axes. unat (axisID axis) < absSize P" by simp_all
          from a have "accepted P (trace ?w4) (axisCalls P ?h axes)" by simp
          from registerAxes_Ok [OF this b, of "replicate (absSize P) 0" "replicate (absSize P) 0"] ra
          have mn: "mn = rangeTable axisMin axes (replicate (absSize P) 0)"
            and mx: "mx = rangeTable axisMax axes (replicate (absSize P) 0)"
            and w5: "w5 = ?w4\<lparr>trace := trace ?w4 @ axisCalls P ?h axes\<rparr>" by simp_all
          from assms o r ra mn mx w5
          have c: "\<not> kernel P (trace w @ ?reg @ axisCalls P ?h axes)
                       (SysCreate ?h (descriptor P nm axes))"
            by (auto simp add: createJoystick_pre createUsbDevice_eq descriptor_def
                split: if_splits)
          with assms o r ra mn mx w5
          have "e = DeviceActivationError"
            and "w' = \<lparr>trace = trace w @ ?reg @ axisCalls P ?h axes
                          @ [SysCreate ?h (descriptor P nm axes), SysClose ?h],
                        handles = handles w\<rparr>"
            by (simp_all add: createJoystick_pre createUsbDevice_eq descriptor_def
                removeAll_fresh world_upd)
          with o r a c show ?thesis
            by (simp add: setupCalls_def accepted_append attempt_append attempt_accepted)
        next
          case (Err e')
          with Pair have ra: "?ra = (Err e', w5)" by simp
          from assms o r ra have "e = e'" and "w' = w5"
            by (simp_all add: createJoystick_pre)
          with registerAxes_Err [OF ra] o r show ?thesis
            by (simp add: setupCalls_def accepted_append attempt_append removeAll_fresh)
        next
          case Panic
          with Pair assms o r show ?thesis
            by (simp add: createJoystick_pre)
        qed
      qed
    qed
  qed
qed

lemma createJoystick_Panic:
  assumes "createJoystick P path nm axes buttons w = (Panic, w')"
  shows "handles w' = fresh (handles w) # handles w \<and>
         (\<exists>cs. prefix cs (setupCalls P (fresh (handles w)) path nm axes buttons) \<and>
               trace w' = trace w @ cs) \<and>
         (\<exists>axis \<in> set axes. \<not> unat (axisID axis) < absSize P \<and>
            (\<exists>tr. kernel P tr
               (SysIoctl (fresh (handles w)) (uiSetAbsBit P) (unat (axisID axis)))))"
proof -
  let ?h = "fresh (handles w)"
  let ?reg = "registrationCalls P ?h path buttons"
  let ?w4 = "w\<lparr>trace := trace w @ ?reg, handles := ?h # handles w\<rparr>"
  let ?ra = "registerAxes P ?h axes (replicate (absSize P) 0, replicate (absSize P) 0) ?w4"
  from assms have o: "kernel P (trace w) (SysOpen path)"
    by (simp add: createJoystick_pre split: if_splits)
  from assms o have r: "accepted P (trace w) ?reg"
    by (simp add: createJoystick_pre split: if_splits)
  from assms o r have ra: "?ra = (Panic, w')"
    by (cases ?ra; cases "fst ?ra")
       (auto simp add: createJoystick_pre createUsbDevice_eq split: if_splits)
  from registerAxes_Panic [OF ra] obtain cs where
    h: "handles w' = ?h # handles w"
    and p: "prefix cs (axisCalls P ?h axes)"
    and t: "trace w' = trace w @ ?reg @ cs"
    and x: "\<exists>axis \<in> set axes. \<not> unat (axisID axis) < absSize P \<and>
             (\<exists>tr. kernel P tr (SysIoctl ?h (uiSetAbsBit P) (unat (axisID axis))))"
    by auto
  from p have "prefix (?reg @ cs) (setupCalls P ?h path nm axes buttons)"
    by (simp add: setupCalls_def prefix_def) auto
  with t have "\<exists>cs. prefix cs (setupCalls P ?h path nm axes buttons) \<and> trace w' = trace w @ cs"
    by auto
  with h x show ?thesis by simp
qed

lemma fileWrite_eq:
  "fileWrite P f buf w =
     (if kernel P (trace w) (SysWrite f buf) then None else Some OSError,
      w\<lparr>trace := trace w @ [SysWrite f buf]\<rparr>)"
  by (simp add: fileWrite_def sys_def)

lemma syncEvents_eq:
  "syncEvents P f w =
     (if kernel P (trace w) (SysWrite f (EventBytes (syncEvent P)))
      then None else Some EventWriteError,
      w\<lparr>trace := trace w @ [SysWrite f (EventBytes (syncEvent P))]\<rparr>)"
  by (simp add: syncEvents_def inputEventToBuffer_def fileWrite_eq)

lemma sendAxisEvent_eq:
  "sendAxisEvent P f axis pos w =
     (let c = SysWrite f (EventBytes
                \<lparr>Time = \<lparr>Sec = 0, Usec = 0\<rparr>, Type = evAbs P, Code = axis, Value = pos\<rparr>);
          s = SysWrite f (EventBytes (syncEvent P))
      in if kernel P (trace w) c
         then (if kernel P (trace w @ [c]) s then None else Some EventWriteError,
               w\<lparr>trace := trace w @ [c, s]\<rparr>)
         else (Some EventWriteError, w\<lparr>trace := trace w @ [c]\<rparr>))"
  by (simp add: sendAxisEvent_def inputEventToBuffer_def fileWrite_eq syncEvents_eq Let_def)

lemma SetButton_eq:
  "SetButton P vj button on w =
     (let c = SysWrite (deviceFile vj) (EventBytes
                \<lparr>Time = \<lparr>Sec = 0, Usec = 0\<rparr>, Type = evKey P, Code = button,
                 Value = (if on then 1 else 0)\<rparr>);
          s = SysWrite (deviceFile vj) (EventBytes (syncEvent P))
      in if kernel P (trace w) c
         then (if kernel P (trace w @ [c]) s then None else Some EventWriteError,
               w\<lparr>trace := trace w @ [c, s]\<rparr>)
         else (Some EventWriteError, w\<lparr>trace := trace w @ [c]\<rparr>))"
  by (simp add: SetButton_def inputEventToBuffer_def fileWrite_eq syncEvents_eq Let_def)




lemma CreateJoystick_valid:
  "pathOk P path \<Longrightarrow> validateUinputName P nm = None \<Longrightarrow>
   CreateJoystick P path nm axes buttons w =
     (case createJoystick P path nm axes buttons w of
        (Err err, w1) \<Rightarrow> (Err err, w1)
      | (Panic, w1) \<Rightarrow> (Panic, w1)
      | (Ok fd, w1) \<Rightarrow> (Ok \<lparr>name = nm, deviceFile = fd\<rparr>, w1))"
  by (simp add: CreateJoystick_def validateDevicePath_def)

lemma CreateJoystick_Ok_conv:
  assumes "CreateJoystick P path nm axes buttons w = (Ok vj, w')"
  shows "pathOk P path \<and> validateUinputName P nm = None \<and>
         vj = \<lparr>name = nm, deviceFile = fresh (handles w)\<rparr> \<and>
         createJoystick P path nm axes buttons w = (Ok (fresh (handles w)), w') \<and>
         accepted P (trace w) (setupCalls P (fresh (handles w)) path nm axes buttons) \<and>
         (\<forall>axis \<in> set axes. unat (axisID axis) < absSize P) \<and>
         w' = \<lparr>trace = trace w @ setupCalls P (fresh (handles w)) path nm axes buttons,
               handles = fresh (handles w) # handles w\<rparr>"
proof -
  from assms have p: "pathOk P path"
    by (simp add: CreateJoystick_def validateDevicePath_def split: if_splits)
  from assms p have n: "validateUinputName P nm = None"
    by (cases "validateUinputName P nm") (simp_all add: CreateJoystick_def validateDevicePath_def)
  obtain r0 w0 where c: "createJoystick P path nm axes buttons w = (r0, w0)"
    by (cases "createJoystick P path nm axes buttons w")
  from assms p n c obtain fd where r0: "r0 = Ok fd" and vj: "vj = \<lparr>name = nm, deviceFile = fd\<rparr>"
    and w0: "w0 = w'"
    by (cases r0) (simp_all add: CreateJoystick_valid)
  from c r0 w0 have c': "createJoystick P path nm axes buttons w = (Ok fd, w')" by simp
  from createJoystick_Ok_conv [OF c']
  have a: "accepted P (trace w) (setupCalls P (fresh (handles w)) path nm axes buttons)"
    and b: "\<forall>axis \<in> set axes. unat (axisID axis) < absSize P" by simp_all
  from createJoystick_Ok [OF a b] c' have "fd = fresh (handles w)"
    and "w' = \<lparr>trace = trace w @ setupCalls P (fresh (handles w)) path nm axes buttons,
               handles = fresh (handles w) # handles w\<rparr>" by simp_all
  with p n vj c' a b show ?thesis by simp
qed

lemma CreateJoystick_Err_conv:
  assumes "CreateJoystick P path nm axes buttons w = (Err e, w')"
    and "pathOk P path" and "validateUinputName P nm = None"
  shows "createJoystick P path nm axes buttons w = (Err e, w')"
proof -
  obtain r0 w0 where c: "createJoystick P path nm axes buttons w = (r0, w0)"
    by (cases "createJoystick P path nm axes buttons w")
  with assms show ?thesis
    by (cases r0) (simp_all add: CreateJoystick_valid)
qed

lemma CreateJoystick_Err_handles:
  assumes "CreateJoystick P path nm axes buttons w = (Err e, w')"
  shows "handles w' = handles w"
proof (cases "pathOk P path \<and> validateUinputName P nm = None")
  case True
  with assms have "createJoystick P path nm axes buttons w = (Err e, w')"
    by (simp add: CreateJoystick_Err_conv)
  from createJoystick_Err [OF this] show ?thesis by simp
next
  case False
  with assms have "w' = w"
    by (cases "validateUinputName P nm")
       (auto simp add: CreateJoystick_def validateDevicePath_def split: if_splits)
  then show ?thesis by simp
qed

lemma registerAxes_Panic_iff:
  "fst (registerAxes P f axes (mn, mx) w) = Panic \<longleftrightarrow> overrun P f (trace w) axes"
  by (induction axes arbitrary: w mn mx) (simp_all add: ioctl_eq fileClose_snd)

lemma overrun_coherent:
  "\<forall>tr h a. kernel P tr (SysIoctl h (uiSetAbsBit P) a) \<longrightarrow> a < absSize P \<Longrightarrow>
   \<not> overrun P f tr axes"
  by (induction axes arbitrary: tr) auto

lemma overrun_in_bounds:
  "\<forall>axis \<in> set axes. unat (axisID axis) < absSize P \<Longrightarrow> \<not> overrun P f tr axes"
  by (induction axes arbitrary: tr) auto

lemma createJoystick_Panic_iff:
  "fst (createJoystick P path nm axes buttons w) = Panic \<longleftrightarrow>
     accepted P (trace w) (registrationCalls P (fresh (handles w)) path buttons)
     \<and> overrun P (fresh (handles w))
          (trace w @ registrationCalls P (fresh (handles w)) path buttons) axes"
proof -
  let ?h = "fresh (handles w)"
  let ?reg = "registrationCalls P ?h path buttons"
  let ?w4 = "w\<lparr>trace := trace w @ ?reg, handles := ?h # handles w\<rparr>"
  let ?ra = "registerAxes P ?h axes (replicate (absSize P) 0, replicate (absSize P) 0) ?w4"
  show ?thesis
  proof (cases "accepted P (trace w) ?reg")
    case False
    then show ?thesis by (simp add: createJoystick_pre)
  next
    case r: True
    then have o: "kernel P (trace w) (SysOpen path)" by (rule registrationCalls_open)
    have p: "fst ?ra = Panic \<longleftrightarrow> overrun P ?h (trace w @ ?reg) axes"
      using registerAxes_Panic_iff [of P ?h axes _ _ ?w4] by simp
    obtain res w5 where ra: "?ra = (res, w5)" by (cases ?ra)
    have "fst (createJoystick P path nm axes buttons w) = Panic \<longleftrightarrow> res = Panic"
      using r o ra
      by (cases res) (auto simp add: createJoystick_pre createUsbDevice_eq split: if_splits)
    with p ra r show ?thesis by simp
  qed
qed

lemma CreateJoystick_Panic_iff:
  "fst (CreateJoystick P path nm axes buttons w) = Panic \<longleftrightarrow>
     pathOk P path \<and> validateUinputName P nm = None
     \<and> accepted P (trace w) (registrationCalls P (fresh (handles w)) path buttons)
     \<and> overrun P (fresh (handles w))
          (trace w @ registrationCalls P (fresh (handles w)) path buttons) axes"
proof (cases "pathOk P path \<and> validateUinputName P nm = None")
  case True
  obtain r0 w0 where c: "createJoystick P path nm axes buttons w = (r0, w0)"
    by (cases "createJoystick P path nm axes buttons w")
  with True have "fst (CreateJoystick P path nm axes buttons w) = Panic \<longleftrightarrow> r0 = Panic"
    by (cases r0) (simp_all add: CreateJoystick_valid)
  with c True createJoystick_Panic_iff [of P path nm axes buttons w] show ?thesis by simp
next
  case False
  then show ?thesis
    by (cases "validateUinputName P nm")
       (auto simp add: CreateJoystick_def validateDevicePath_def)
qed

lemma rangeTable_length: "length (rangeTable sel axes t) = length t"
  by (induction axes arbitrary: t) (simp_all add: rangeTable_def)

lemma rangeTable_snoc:
  "rangeTable sel (axes @ [axis]) t = (rangeTable sel axes t)[unat (axisID axis) := sel axis]"
  by (simp add: rangeTable_def)

lemma lastDeclared_snoc:
  "lastDeclared (axes @ [axis]) i =
     (if unat (axisID axis) = i then Some axis else lastDeclared axes i)"
  by (simp add: lastDeclared_def)

lemma rangeTable_nth:
  "i < length t \<Longrightarrow>
   rangeTable sel axes t ! i =
     (case lastDeclared axes i of None \<Rightarrow> t ! i | Some axis \<Rightarrow> sel axis)"
proof (induction axes rule: rev_induct)
  case Nil
  show ?case by (simp add: rangeTable_def lastDeclared_def)
next
  case (snoc axis axes)
  show ?case
  proof (cases "unat (axisID axis) = i")
    case True
    with snoc.prems show ?thesis
      by (simp add: rangeTable_snoc lastDeclared_snoc rangeTable_length)
  next
    case False
    with snoc show ?thesis
      by (simp add: rangeTable_snoc lastDeclared_snoc)
  qed
qed

lemma last_setupCalls:
  "last (tr @ setupCalls P f path nm axes buttons) = SysCreate f (descriptor P nm axes)"
  by (simp add: setupCalls_def)

lemma toUinputName_valid:
  "validateUinputName P nm = None \<Longrightarrow>
   take (length nm) (toUinputName P nm) = nm \<and> length (toUinputName P nm) = uinputMaxNameSize P"
  by (simp add: validateUinputName_def toUinputName_def split: if_splits)

lemma registerAxes_tables:
  assumes "registerAxes P f axes (mn, mx) w = (Ok (mn', mx'), w')"
  shows "mn' = rangeTable axisMin axes mn \<and> mx' = rangeTable axisMax axes mx"
proof -
  from registerAxes_Ok_conv [OF assms]
  have "accepted P (trace w) (axisCalls P f axes)"
    and "\<forall>axis \<in> set axes. unat (axisID axis) < absSize P" by simp_all
  from registerAxes_Ok [OF this, of mn mx] assms show ?thesis by simp
qed

lemma axisCalls_rejected:
  "axis \<in> set axes \<Longrightarrow>
   \<forall>tr. \<not> kernel P tr (SysIoctl f (uiSetAbsBit P) (unat (axisID axis))) \<Longrightarrow>
   \<not> accepted P tr (axisCalls P f axes)"
  by (induction axes arbitrary: tr) (auto simp add: axisCalls_simps)

text \<open>The definitions a run on the example platform unfolds.\<close>

lemmas run_defs = CreateJoystick_def validateDevicePath_def validateUinputName_def
      createJoystick_def createDeviceFile_def fileOpen_def sys_def registerDevice_def ioctl_def
      fileClose_def createUsbDevice_def examplePlatform_def world0_def fresh_def
      testPad_def

section \<open>The claims\<close>

text \<open>
  C1. The setup sequence is the open followed by the five steps: the key-class
  registration, the button registrations, the axis-class registration, the axis
  registrations and the activation.

  When the inputs are valid, the kernel accepted the open and then rejects a call of the
  sequence, \<open>CreateJoystick\<close> returns an error: the kernel calls made are the sequence up
  to and including the rejected call, followed by the close of the new handle, which is
  then no longer open, and the open handles are those from before the call. The one run
  this does not speak of is the run that stops earlier, in the index panic of a table
  write (\<open>overrun\<close>): there no call has been rejected yet and nothing is returned. That
  run is the only one that returns nothing, it needs an axis code that the kernel
  accepted and that is not below \<open>absSize\<close>, and it does not exist on a platform whose
  kernel accepts axis codes only below \<open>absSize\<close>, nor when every declared code is below
  \<open>absSize\<close>.

  In every other run \<open>CreateJoystick\<close> returns a joystick or an error. Whenever it returns
  an error, the open handles are those from before the call, and an error carries no
  joystick. Whenever it returns a joystick, every call of the sequence was accepted,
  the calls made are the whole sequence, and the joystick holds the name and the new,
  open handle; and it does return one when the inputs are valid and every call is
  accepted.
\<close>

theorem construction_failure_closes_handle:
  assumes "CreateJoystick P path nm axes buttons w = (r, w')"
  shows "(\<forall>e. r = Err e \<longrightarrow> handles w' = handles w)
   \<and> (\<forall>e. r = Err e \<and> pathOk P path \<and> validateUinputName P nm = None
            \<and> kernel P (trace w) (SysOpen path) \<longrightarrow>
          (e = CapabilityRegistrationError \<or> e = DeviceActivationError)
          \<and> \<not> accepted P (trace w) (setupCalls P (fresh (handles w)) path nm axes buttons)
          \<and> trace w' = trace w
               @ attempt P (trace w) (setupCalls P (fresh (handles w)) path nm axes buttons)
               @ [SysClose (fresh (handles w))]
          \<and> fresh (handles w) \<notin> set (handles w'))
   \<and> (\<forall>vj. r = Ok vj \<longrightarrow>
          vj = \<lparr>name = nm, deviceFile = fresh (handles w)\<rparr>
          \<and> accepted P (trace w) (setupCalls P (fresh (handles w)) path nm axes buttons)
          \<and> trace w' = trace w @ setupCalls P (fresh (handles w)) path nm axes buttons
          \<and> handles w' = fresh (handles w) # handles w)
   \<and> (pathOk P path \<and> validateUinputName P nm = None
        \<and> kernel P (trace w) (SysOpen path)
        \<and> \<not> accepted P (trace w) (setupCalls P (fresh (handles w)) path nm axes buttons)
        \<and> \<not> (accepted P (trace w) (registrationCalls P (fresh (handles w)) path buttons)
              \<and> overrun P (fresh (handles w))
                   (trace w @ registrationCalls P (fresh (handles w)) path buttons) axes) \<longrightarrow>
          (r = Err CapabilityRegistrationError \<or> r = Err DeviceActivationError)
          \<and> trace w' = trace w
               @ attempt P (trace w) (setupCalls P (fresh (handles w)) path nm axes buttons)
               @ [SysClose (fresh (handles w))]
          \<and> fresh (handles w) \<notin> set (handles w')
          \<and> handles w' = handles w)
   \<and> (pathOk P path \<and> validateUinputName P nm = None
        \<and> accepted P (trace w) (setupCalls P (fresh (handles w)) path nm axes buttons)
        \<and> \<not> overrun P (fresh (handles w))
               (trace w @ registrationCalls P (fresh (handles w)) path buttons) axes \<longrightarrow>
          r = Ok \<lparr>name = nm, deviceFile = fresh (handles w)\<rparr>)
   \<and> (r = Panic \<longleftrightarrow>
          pathOk P path \<and> validateUinputName P nm = None
          \<and> accepted P (trace w) (registrationCalls P (fresh (handles w)) path buttons)
          \<and> overrun P (fresh (handles w))
               (trace w @ registrationCalls P (fresh (handles w)) path buttons) axes)
   \<and> (r = Panic \<longrightarrow>
          handles w' = fresh (handles w) # handles w
          \<and> (\<exists>axis \<in> set axes. \<not> unat (axisID axis) < absSize P
                \<and> (\<exists>tr. kernel P tr
                      (SysIoctl (fresh (handles w)) (uiSetAbsBit P) (unat (axisID axis))))))
   \<and> ((\<forall>tr h a. kernel P tr (SysIoctl h (uiSetAbsBit P) a) \<longrightarrow> a < absSize P)
          \<longrightarrow> r \<noteq> Panic)
   \<and> ((\<forall>axis \<in> set axes. unat (axisID axis) < absSize P) \<longrightarrow> r \<noteq> Panic)"
proof -
  let ?h = "fresh (handles w)"
  let ?reg = "registrationCalls P ?h path buttons"
  let ?seq = "setupCalls P ?h path nm axes buttons"
  let ?over = "overrun P ?h (trace w @ ?reg) axes"
  from assms have fr: "fst (CreateJoystick P path nm axes buttons w) = r" by simp
  have pi: "r = Panic \<longleftrightarrow>
      pathOk P path \<and> validateUinputName P nm = None \<and> accepted P (trace w) ?reg \<and> ?over"
    using CreateJoystick_Panic_iff [of P path nm axes buttons w] fr by simp
  have c1: "\<forall>e. r = Err e \<longrightarrow> handles w' = handles w"
    using assms by (auto dest: CreateJoystick_Err_handles)
  have c2: "\<forall>e. r = Err e \<and> pathOk P path \<and> validateUinputName P nm = None
            \<and> kernel P (trace w) (SysOpen path) \<longrightarrow>
          (e = CapabilityRegistrationError \<or> e = DeviceActivationError)
          \<and> \<not> accepted P (trace w) ?seq
          \<and> trace w' = trace w @ attempt P (trace w) ?seq @ [SysClose ?h]
          \<and> ?h \<notin> set (handles w')"
  proof (intro allI impI, elim conjE)
    fix e
    assume e: "r = Err e" and p: "pathOk P path" and n: "validateUinputName P nm = None"
      and o: "kernel P (trace w) (SysOpen path)"
    from assms e have c: "CreateJoystick P path nm axes buttons w = (Err e, w')" by simp
    from CreateJoystick_Err_conv [OF c p n]
    have "createJoystick P path nm axes buttons w = (Err e, w')" .
    from createJoystick_Err [OF this] o fresh_notin [of "handles w"]
    show "(e = CapabilityRegistrationError \<or> e = DeviceActivationError)
          \<and> \<not> accepted P (trace w) ?seq
          \<and> trace w' = trace w @ attempt P (trace w) ?seq @ [SysClose ?h]
          \<and> ?h \<notin> set (handles w')" by simp
  qed
  have c3: "\<forall>vj. r = Ok vj \<longrightarrow>
          vj = \<lparr>name = nm, deviceFile = ?h\<rparr>
          \<and> accepted P (trace w) ?seq
          \<and> trace w' = trace w @ ?seq
          \<and> handles w' = ?h # handles w"
  proof (intro allI impI)
    fix vj
    assume "r = Ok vj"
    with assms have "CreateJoystick P path nm axes buttons w = (Ok vj, w')" by simp
    from CreateJoystick_Ok_conv [OF this]
    show "vj = \<lparr>name = nm, deviceFile = ?h\<rparr>
          \<and> accepted P (trace w) ?seq
          \<and> trace w' = trace w @ ?seq
          \<and> handles w' = ?h # handles w" by simp
  qed
  have c4: "pathOk P path \<and> validateUinputName P nm = None
        \<and> kernel P (trace w) (SysOpen path)
        \<and> \<not> accepted P (trace w) ?seq
        \<and> \<not> (accepted P (trace w) ?reg \<and> ?over) \<longrightarrow>
          (r = Err CapabilityRegistrationError \<or> r = Err DeviceActivationError)
          \<and> trace w' = trace w @ attempt P (trace w) ?seq @ [SysClose ?h]
          \<and> ?h \<notin> set (handles w')
          \<and> handles w' = handles w"
  proof (rule impI, elim conjE)
    assume p: "pathOk P path" and n: "validateUinputName P nm = None"
      and o: "kernel P (trace w) (SysOpen path)"
      and na: "\<not> accepted P (trace w) ?seq"
      and no: "\<not> (accepted P (trace w) ?reg \<and> ?over)"
    from pi no have np: "r \<noteq> Panic" by blast
    from c3 na have nk: "\<forall>vj. r \<noteq> Ok vj" by blast
    from np nk obtain e where e: "r = Err e" by (cases r) auto
    from c2 e p n o have "(e = CapabilityRegistrationError \<or> e = DeviceActivationError)
          \<and> trace w' = trace w @ attempt P (trace w) ?seq @ [SysClose ?h]
          \<and> ?h \<notin> set (handles w')" by blast
    moreover from c1 e have "handles w' = handles w" by blast
    ultimately show "(r = Err CapabilityRegistrationError \<or> r = Err DeviceActivationError)
          \<and> trace w' = trace w @ attempt P (trace w) ?seq @ [SysClose ?h]
          \<and> ?h \<notin> set (handles w')
          \<and> handles w' = handles w" using e by blast
  qed
  have c5: "pathOk P path \<and> validateUinputName P nm = None
        \<and> accepted P (trace w) ?seq \<and> \<not> ?over \<longrightarrow>
          r = Ok \<lparr>name = nm, deviceFile = ?h\<rparr>"
  proof (rule impI, elim conjE)
    assume p: "pathOk P path" and n: "validateUinputName P nm = None"
      and a: "accepted P (trace w) ?seq" and no: "\<not> ?over"
    from pi no have np: "r \<noteq> Panic" by blast
    have ne: "\<forall>e. r \<noteq> Err e"
    proof (intro allI notI)
      fix e
      assume e: "r = Err e"
      with assms have c: "CreateJoystick P path nm axes buttons w = (Err e, w')" by simp
      from CreateJoystick_Err_conv [OF c p n]
      have "createJoystick P path nm axes buttons w = (Err e, w')" .
      from createJoystick_Err [OF this] a show False by simp
    qed
    from np ne obtain vj where "r = Ok vj" by (cases r) auto
    with c3 show "r = Ok \<lparr>name = nm, deviceFile = ?h\<rparr>" by blast
  qed
  have c7: "r = Panic \<longrightarrow>
          handles w' = ?h # handles w
          \<and> (\<exists>axis \<in> set axes. \<not> unat (axisID axis) < absSize P
                \<and> (\<exists>tr. kernel P tr (SysIoctl ?h (uiSetAbsBit P) (unat (axisID axis)))))"
  proof
    assume "r = Panic"
    with assms have c: "CreateJoystick P path nm axes buttons w = (Panic, w')" by simp
    then have "createJoystick P path nm axes buttons w = (Panic, w')"
      by (cases "validateUinputName P nm"; cases "createJoystick P path nm axes buttons w";
          cases "fst (createJoystick P path nm axes buttons w)")
         (auto simp add: CreateJoystick_def validateDevicePath_def split: if_splits)
    from createJoystick_Panic [OF this]
    show "handles w' = ?h # handles w
          \<and> (\<exists>axis \<in> set axes. \<not> unat (axisID axis) < absSize P
                \<and> (\<exists>tr. kernel P tr (SysIoctl ?h (uiSetAbsBit P) (unat (axisID axis)))))"
      by simp
  qed
  have c8: "(\<forall>tr h a. kernel P tr (SysIoctl h (uiSetAbsBit P) a) \<longrightarrow> a < absSize P)
          \<longrightarrow> r \<noteq> Panic"
    using pi overrun_coherent [of P ?h "trace w @ ?reg" axes] by blast
  have c9: "(\<forall>axis \<in> set axes. unat (axisID axis) < absSize P) \<longrightarrow> r \<noteq> Panic"
    using pi overrun_in_bounds [of axes P ?h "trace w @ ?reg"] by blast
  from c1 c2 c3 c4 c5 pi c7 c8 c9 show ?thesis by (intro conjI)
qed

theorem construction_failure_closes_handle_witness:
  "pathOk (examplePlatform (rejectNth 2)) ''/dev/uinput''
   \<and> validateUinputName (examplePlatform (rejectNth 2)) testPad = None
   \<and> kernel (examplePlatform (rejectNth 2)) (trace world0) (SysOpen ''/dev/uinput'')
   \<and> \<not> accepted (examplePlatform (rejectNth 2)) (trace world0)
         (setupCalls (examplePlatform (rejectNth 2)) (fresh (handles world0)) ''/dev/uinput''
            testPad [\<lparr>axisID = 0, axisMin = - 32767, axisMax = 32767\<rparr>] [\<lparr>buttonID = 0\<rparr>])
   \<and> \<not> overrun (examplePlatform (rejectNth 2)) (fresh (handles world0))
         (trace world0 @ registrationCalls (examplePlatform (rejectNth 2))
            (fresh (handles world0)) ''/dev/uinput'' [\<lparr>buttonID = 0\<rparr>])
         [\<lparr>axisID = 0, axisMin = - 32767, axisMax = 32767\<rparr>]
   \<and> fst (CreateJoystick (examplePlatform (rejectNth 2)) ''/dev/uinput'' testPad
          [\<lparr>axisID = 0, axisMin = - 32767, axisMax = 32767\<rparr>] [\<lparr>buttonID = 0\<rparr>] world0)
     = Err CapabilityRegistrationError
   \<and> handles (snd (CreateJoystick (examplePlatform (rejectNth 2)) ''/dev/uinput'' testPad
          [\<lparr>axisID = 0, axisMin = - 32767, axisMax = 32767\<rparr>] [\<lparr>buttonID = 0\<rparr>] world0)) = []
   \<and> trace (snd (CreateJoystick (examplePlatform (rejectNth 2)) ''/dev/uinput'' testPad
          [\<lparr>axisID = 0, axisMin = - 32767, axisMax = 32767\<rparr>] [\<lparr>buttonID = 0\<rparr>] world0))
     = [SysOpen ''/dev/uinput'', SysIoctl 1 0x40045564 1, SysIoctl 1 0x40045565 0, SysClose 1]
   \<and> fst (CreateJoystick (examplePlatform acceptAll) ''/dev/uinput'' testPad
          [\<lparr>axisID = 0, axisMin = - 32767, axisMax = 32767\<rparr>] [\<lparr>buttonID = 0\<rparr>] world0)
     = Ok \<lparr>name = testPad, deviceFile = 1\<rparr>
   \<and> handles (snd (CreateJoystick (examplePlatform acceptAll) ''/dev/uinput'' testPad
          [\<lparr>axisID = 0, axisMin = - 32767, axisMax = 32767\<rparr>] [\<lparr>buttonID = 0\<rparr>] world0)) = [1]
   \<and> fst (CreateJoystick (examplePlatform acceptAll) ''/dev/uinput'' testPad
          [\<lparr>axisID = 64, axisMin = - 1, axisMax = 1\<rparr>] [] world0) = Panic
   \<and> handles (snd (CreateJoystick (examplePlatform acceptAll) ''/dev/uinput'' testPad
          [\<lparr>axisID = 64, axisMin = - 1, axisMax = 1\<rparr>] [] world0)) = [1]"
proof -
  let ?axes = "[\<lparr>axisID = 0, axisMin = - 32767, axisMax = 32767\<rparr>]"
  let ?btns = "[\<lparr>buttonID = 0\<rparr>]"
  let ?R = "examplePlatform (rejectNth 2)"
  let ?A = "examplePlatform acceptAll"
  let ?fail = "CreateJoystick ?R ''/dev/uinput'' testPad ?axes ?btns world0"
  let ?ok = "CreateJoystick ?A ''/dev/uinput'' testPad ?axes ?btns world0"
  let ?pan = "CreateJoystick ?A ''/dev/uinput'' testPad [\<lparr>axisID = 64, axisMin = - 1, axisMax = 1\<rparr>]
      [] world0"
  have p: "pathOk ?R ''/dev/uinput''" and n: "validateUinputName ?R testPad = None"
    and o: "kernel ?R (trace world0) (SysOpen ''/dev/uinput'')"
    by (simp_all add: examplePlatform_def rejectNth_def validateUinputName_def testPad_def
        world0_def)
  have na: "\<not> accepted ?R (trace world0)
      (setupCalls ?R (fresh (handles world0)) ''/dev/uinput'' testPad ?axes ?btns)"
    by (simp add: setupCalls_def registrationCalls_def buttonCalls_def examplePlatform_def
        rejectNth_def world0_def)
  have no: "\<not> overrun ?R (fresh (handles world0))
      (trace world0 @ registrationCalls ?R (fresh (handles world0)) ''/dev/uinput'' ?btns) ?axes"
    by (simp add: examplePlatform_def)
  have run: "?fail = (fst ?fail, snd ?fail)" by simp
  note fwd = construction_failure_closes_handle [OF run, THEN conjunct2, THEN conjunct2,
      THEN conjunct2, THEN conjunct1]
  from fwd p n o na no
  have h: "handles (snd ?fail) = handles world0" by blast
  have e': "fst ?fail = Err CapabilityRegistrationError"
    and t: "trace (snd ?fail) =
        [SysOpen ''/dev/uinput'', SysIoctl 1 0x40045564 1, SysIoctl 1 0x40045565 0, SysClose 1]"
    by (simp_all add: run_defs rejectNth_def)
  have k: "fst ?ok = Ok \<lparr>name = testPad, deviceFile = 1\<rparr>" and hk: "handles (snd ?ok) = [1]"
    by (simp_all add: run_defs acceptAll_def)
  have pn: "fst ?pan = Panic" and hp: "handles (snd ?pan) = [1]"
    by (simp_all add: run_defs acceptAll_def)
  have h': "handles (snd ?fail) = []" using h by (simp add: world0_def)
  from p n o na no e' h' t k hk pn hp show ?thesis by (intro conjI)
qed

text \<open>
  C2. For every axis code and every 32-bit value \<open>v\<close>, the first call \<open>SetAxis\<close> makes
  is the write of the event record with the absolute-axis type, the axis code and the
  value \<open>v\<close> as given: \<open>SetAxis\<close> does not take the declared ranges, and the world it
  runs in is any world, so also the one after a construction that declared a range
  \<open>v\<close> lies outside of. When the kernel accepts that write, one write of the
  synchronization event follows, and nothing else.
\<close>

theorem SetAxis_passes_value:
  "trace (snd (SetAxis P vj axis v w)) =
     trace w
     @ [SysWrite (deviceFile vj) (EventBytes
          \<lparr>Time = \<lparr>Sec = 0, Usec = 0\<rparr>, Type = evAbs P, Code = axis, Value = v\<rparr>)]
     @ (if kernel P (trace w) (SysWrite (deviceFile vj) (EventBytes
             \<lparr>Time = \<lparr>Sec = 0, Usec = 0\<rparr>, Type = evAbs P, Code = axis, Value = v\<rparr>))
        then [SysWrite (deviceFile vj) (EventBytes (syncEvent P))] else [])"
  by (simp add: SetAxis_def sendAxisEvent_eq Let_def)

theorem SetAxis_passes_value_witness:
  "trace (snd (SetAxis (examplePlatform acceptAll) \<lparr>name = testPad, deviceFile = 1\<rparr> 0 100000
        (snd (CreateJoystick (examplePlatform acceptAll) ''/dev/uinput'' testPad
           [\<lparr>axisID = 0, axisMin = - 32767, axisMax = 32767\<rparr>] [\<lparr>buttonID = 0\<rparr>] world0))))
   = trace (snd (CreateJoystick (examplePlatform acceptAll) ''/dev/uinput'' testPad
           [\<lparr>axisID = 0, axisMin = - 32767, axisMax = 32767\<rparr>] [\<lparr>buttonID = 0\<rparr>] world0))
     @ [SysWrite 1 (EventBytes
          \<lparr>Time = \<lparr>Sec = 0, Usec = 0\<rparr>, Type = 3, Code = 0, Value = 100000\<rparr>),
        SysWrite 1 (EventBytes \<lparr>Time = \<lparr>Sec = 0, Usec = 0\<rparr>, Type = 0, Code = 0, Value = 0\<rparr>)]"
  using SetAxis_passes_value [of "examplePlatform acceptAll" "\<lparr>name = testPad, deviceFile = 1\<rparr>"
      0 100000
      "snd (CreateJoystick (examplePlatform acceptAll) ''/dev/uinput'' testPad
           [\<lparr>axisID = 0, axisMin = - 32767, axisMax = 32767\<rparr>] [\<lparr>buttonID = 0\<rparr>] world0)"]
  by (simp add: examplePlatform_def acceptAll_def syncEvent_def)

text \<open>
  C3. \<open>SetButton\<close> writes one key event record with a zero timestamp, the button code and
  the value 1 for pressed, 0 for released, followed by one synchronization event when the
  write is accepted. Two calls in a row, pressed then released, with every write
  accepted, make four writes: key 1, synchronization, key 0, synchronization.
\<close>

theorem SetButton_events:
  "trace (snd (SetButton P vj button on w)) =
     trace w
     @ [SysWrite (deviceFile vj) (EventBytes
          \<lparr>Time = \<lparr>Sec = 0, Usec = 0\<rparr>, Type = evKey P, Code = button,
           Value = (if on then 1 else 0)\<rparr>)]
     @ (if kernel P (trace w) (SysWrite (deviceFile vj) (EventBytes
             \<lparr>Time = \<lparr>Sec = 0, Usec = 0\<rparr>, Type = evKey P, Code = button,
              Value = (if on then 1 else 0)\<rparr>))
        then [SysWrite (deviceFile vj) (EventBytes (syncEvent P))] else [])
   \<and> (accepted P (trace w)
         [SysWrite (deviceFile vj) (EventBytes
            \<lparr>Time = \<lparr>Sec = 0, Usec = 0\<rparr>, Type = evKey P, Code = button, Value = 1\<rparr>),
          SysWrite (deviceFile vj) (EventBytes (syncEvent P)),
          SysWrite (deviceFile vj) (EventBytes
            \<lparr>Time = \<lparr>Sec = 0, Usec = 0\<rparr>, Type = evKey P, Code = button, Value = 0\<rparr>),
          SysWrite (deviceFile vj) (EventBytes (syncEvent P))]
      \<longrightarrow> fst (SetButton P vj button True w) = None
        \<and> fst (SetButton P vj button False (snd (SetButton P vj button True w))) = None
        \<and> trace (snd (SetButton P vj button False (snd (SetButton P vj button True w)))) =
            trace w
            @ [SysWrite (deviceFile vj) (EventBytes
                 \<lparr>Time = \<lparr>Sec = 0, Usec = 0\<rparr>, Type = evKey P, Code = button, Value = 1\<rparr>),
               SysWrite (deviceFile vj) (EventBytes (syncEvent P)),
               SysWrite (deviceFile vj) (EventBytes
                 \<lparr>Time = \<lparr>Sec = 0, Usec = 0\<rparr>, Type = evKey P, Code = button, Value = 0\<rparr>),
               SysWrite (deviceFile vj) (EventBytes (syncEvent P))])"
  by (simp add: SetButton_eq Let_def)

theorem SetButton_events_witness:
  "accepted (examplePlatform acceptAll) (trace world0)
     [SysWrite 1 (EventBytes \<lparr>Time = \<lparr>Sec = 0, Usec = 0\<rparr>, Type = 1, Code = 0, Value = 1\<rparr>),
      SysWrite 1 (EventBytes (syncEvent (examplePlatform acceptAll))),
      SysWrite 1 (EventBytes \<lparr>Time = \<lparr>Sec = 0, Usec = 0\<rparr>, Type = 1, Code = 0, Value = 0\<rparr>),
      SysWrite 1 (EventBytes (syncEvent (examplePlatform acceptAll)))]
   \<and> trace (snd (SetButton (examplePlatform acceptAll) \<lparr>name = testPad, deviceFile = 1\<rparr> 0 False
        (snd (SetButton (examplePlatform acceptAll) \<lparr>name = testPad, deviceFile = 1\<rparr> 0 True
           world0)))) =
     [SysWrite 1 (EventBytes \<lparr>Time = \<lparr>Sec = 0, Usec = 0\<rparr>, Type = 1, Code = 0, Value = 1\<rparr>),
      SysWrite 1 (EventBytes \<lparr>Time = \<lparr>Sec = 0, Usec = 0\<rparr>, Type = 0, Code = 0, Value = 0\<rparr>),
      SysWrite 1 (EventBytes \<lparr>Time = \<lparr>Sec = 0, Usec = 0\<rparr>, Type = 1, Code = 0, Value = 0\<rparr>),
      SysWrite 1 (EventBytes \<lparr>Time = \<lparr>Sec = 0, Usec = 0\<rparr>, Type = 0, Code = 0, Value = 0\<rparr>)]"
  using SetButton_events [of "examplePlatform acceptAll" "\<lparr>name = testPad, deviceFile = 1\<rparr>"
      0 True world0]
  by (simp add: examplePlatform_def acceptAll_def world0_def syncEvent_def)

text \<open>
  C4. With an unacceptable path \<open>CreateJoystick\<close> returns InvalidPathError and leaves the
  world as it was: no kernel call, no handle. With an acceptable path and a name that
  is empty or longer than the field width it returns InvalidNameError, again with the
  world as it was.
\<close>

theorem validation_before_open:
  "(\<not> pathOk P path \<longrightarrow>
      CreateJoystick P path nm axes buttons w = (Err InvalidPathError, w))
   \<and> (pathOk P path \<and> (nm = [] \<or> uinputMaxNameSize P < length nm) \<longrightarrow>
      CreateJoystick P path nm axes buttons w = (Err InvalidNameError, w))"
  by (simp add: CreateJoystick_def validateDevicePath_def validateUinputName_def)

theorem validation_before_open_witness:
  "\<not> pathOk (examplePlatform acceptAll) []
   \<and> CreateJoystick (examplePlatform acceptAll) [] testPad [] [] world0
       = (Err InvalidPathError, world0)
   \<and> pathOk (examplePlatform acceptAll) ''/dev/uinput''
   \<and> uinputMaxNameSize (examplePlatform acceptAll) < length (replicate 81 (0x41 :: u8))
   \<and> CreateJoystick (examplePlatform acceptAll) ''/dev/uinput'' [] [] [] world0
       = (Err InvalidNameError, world0)
   \<and> CreateJoystick (examplePlatform acceptAll) ''/dev/uinput'' (replicate 81 0x41) [] [] world0
       = (Err InvalidNameError, world0)"
  using validation_before_open [of "examplePlatform acceptAll" "[]" testPad "[]" "[]" world0]
    validation_before_open [of "examplePlatform acceptAll" "''/dev/uinput''" "[]" "[]" "[]" world0]
    validation_before_open [of "examplePlatform acceptAll" "''/dev/uinput''"
      "replicate 81 0x41" "[]" "[]" world0]
  by (simp add: examplePlatform_def)

text \<open>
  C5. When \<open>createJoystick\<close> succeeds, the kernel calls it made are, in this order: the
  open, the registration of the key-event class, one registration per declared button in
  declaration order, the registration of the absolute-axis class, one registration per
  declared axis in declaration order, and the one activation call. It succeeds exactly
  when the kernel accepts every one of these calls (and every axis code indexes the
  tables): one rejected call and there is no device. Whatever the outcome, the calls
  made are an initial part of that sequence, followed at most by the close of the
  handle.
\<close>

theorem setup_call_order:
  assumes "createJoystick P path nm axes buttons w = (r, w')"
  shows "(\<forall>f. r = Ok f \<longrightarrow>
            f = fresh (handles w) \<and>
            trace w' = trace w
              @ [SysOpen path, SysIoctl f (uiSetEvBit P) (unat (evKey P))]
              @ map (\<lambda>btn. SysIoctl f (uiSetKeyBit P) (unat (buttonID btn))) buttons
              @ [SysIoctl f (uiSetEvBit P) (unat (evAbs P))]
              @ map (\<lambda>axis. SysIoctl f (uiSetAbsBit P) (unat (axisID axis))) axes
              @ [SysCreate f (descriptor P nm axes)])
   \<and> ((\<exists>f. r = Ok f) \<longleftrightarrow>
        accepted P (trace w) (setupCalls P (fresh (handles w)) path nm axes buttons)
        \<and> (\<forall>axis \<in> set axes. unat (axisID axis) < absSize P))
   \<and> (\<exists>cs. prefix cs (setupCalls P (fresh (handles w)) path nm axes buttons)
          \<and> (trace w' = trace w @ cs \<or> trace w' = trace w @ cs @ [SysClose (fresh (handles w))]))"
proof (cases r)
  case (Ok f)
  with assms have c: "createJoystick P path nm axes buttons w = (Ok f, w')" by simp
  from createJoystick_Ok_conv [OF c]
  have a: "accepted P (trace w) (setupCalls P (fresh (handles w)) path nm axes buttons)"
    and b: "\<forall>axis \<in> set axes. unat (axisID axis) < absSize P" by simp_all
  from createJoystick_Ok [OF a b] c have f: "f = fresh (handles w)"
    and t: "trace w' = trace w @ setupCalls P (fresh (handles w)) path nm axes buttons"
    by simp_all
  from t have "\<exists>cs. prefix cs (setupCalls P (fresh (handles w)) path nm axes buttons)
          \<and> (trace w' = trace w @ cs \<or> trace w' = trace w @ cs @ [SysClose (fresh (handles w))])"
    by blast
  moreover from t f have "trace w' = trace w
              @ [SysOpen path, SysIoctl f (uiSetEvBit P) (unat (evKey P))]
              @ map (\<lambda>btn. SysIoctl f (uiSetKeyBit P) (unat (buttonID btn))) buttons
              @ [SysIoctl f (uiSetEvBit P) (unat (evAbs P))]
              @ map (\<lambda>axis. SysIoctl f (uiSetAbsBit P) (unat (axisID axis))) axes
              @ [SysCreate f (descriptor P nm axes)]"
    by (simp add: setupCalls_def registrationCalls_def buttonCalls_def axisCalls_def)
  ultimately show ?thesis using Ok a b f by simp
next
  case (Err e)
  with assms have c: "createJoystick P path nm axes buttons w = (Err e, w')" by simp
  let ?cs = "attempt P (trace w) (setupCalls P (fresh (handles w)) path nm axes buttons)"
  from createJoystick_Err [OF c]
  have na: "\<not> accepted P (trace w) (setupCalls P (fresh (handles w)) path nm axes buttons)"
    and t: "trace w' = trace w @ ?cs \<or> trace w' = trace w @ ?cs @ [SysClose (fresh (handles w))]"
    by (simp_all split: if_splits)
  have "prefix ?cs (setupCalls P (fresh (handles w)) path nm axes buttons)"
    by (rule attempt_prefix)
  with t have "\<exists>cs. prefix cs (setupCalls P (fresh (handles w)) path nm axes buttons)
          \<and> (trace w' = trace w @ cs \<or> trace w' = trace w @ cs @ [SysClose (fresh (handles w))])"
    by blast
  with na Err show ?thesis by simp
next
  case Panic
  with assms have c: "createJoystick P path nm axes buttons w = (Panic, w')" by simp
  from createJoystick_Panic [OF c] obtain cs where
    "prefix cs (setupCalls P (fresh (handles w)) path nm axes buttons)" "trace w' = trace w @ cs"
    and "\<exists>axis \<in> set axes. \<not> unat (axisID axis) < absSize P"
    by blast
  then have "(\<exists>cs. prefix cs (setupCalls P (fresh (handles w)) path nm axes buttons)
          \<and> (trace w' = trace w @ cs \<or> trace w' = trace w @ cs @ [SysClose (fresh (handles w))]))
     \<and> \<not> (\<forall>axis \<in> set axes. unat (axisID axis) < absSize P)"
    by blast
  with Panic show ?thesis by simp
qed

theorem setup_call_order_witness:
  "fst (createJoystick (examplePlatform acceptAll) ''/dev/uinput'' testPad
          [\<lparr>axisID = 0, axisMin = - 32767, axisMax = 32767\<rparr>] [\<lparr>buttonID = 0\<rparr>] world0) = Ok 1
   \<and> trace (snd (createJoystick (examplePlatform acceptAll) ''/dev/uinput'' testPad
          [\<lparr>axisID = 0, axisMin = - 32767, axisMax = 32767\<rparr>] [\<lparr>buttonID = 0\<rparr>] world0))
     = [SysOpen ''/dev/uinput'', SysIoctl 1 0x40045564 1, SysIoctl 1 0x40045565 0,
        SysIoctl 1 0x40045564 3, SysIoctl 1 0x40045567 0,
        SysCreate 1 (descriptor (examplePlatform acceptAll) testPad
          [\<lparr>axisID = 0, axisMin = - 32767, axisMax = 32767\<rparr>])]
   \<and> fst (createJoystick (examplePlatform (rejectNth 4)) ''/dev/uinput'' testPad
          [\<lparr>axisID = 0, axisMin = - 32767, axisMax = 32767\<rparr>] [\<lparr>buttonID = 0\<rparr>] world0)
     = Err CapabilityRegistrationError
   \<and> trace (snd (createJoystick (examplePlatform (rejectNth 4)) ''/dev/uinput'' testPad
          [\<lparr>axisID = 0, axisMin = - 32767, axisMax = 32767\<rparr>] [\<lparr>buttonID = 0\<rparr>] world0))
     = [SysOpen ''/dev/uinput'', SysIoctl 1 0x40045564 1, SysIoctl 1 0x40045565 0,
        SysIoctl 1 0x40045564 3, SysIoctl 1 0x40045567 0, SysClose 1]"
  using setup_call_order [of "examplePlatform acceptAll" "''/dev/uinput''" testPad
      "[\<lparr>axisID = 0, axisMin = - 32767, axisMax = 32767\<rparr>]" "[\<lparr>buttonID = 0\<rparr>]" world0
      "fst (createJoystick (examplePlatform acceptAll) ''/dev/uinput'' testPad
          [\<lparr>axisID = 0, axisMin = - 32767, axisMax = 32767\<rparr>] [\<lparr>buttonID = 0\<rparr>] world0)"
      "snd (createJoystick (examplePlatform acceptAll) ''/dev/uinput'' testPad
          [\<lparr>axisID = 0, axisMin = - 32767, axisMax = 32767\<rparr>] [\<lparr>buttonID = 0\<rparr>] world0)"]
  by (simp add: run_defs acceptAll_def rejectNth_def descriptor_def rangeTable_def
      toUinputName_def)

text \<open>
  C6. The loop over the declared axes, started as \<open>createJoystick\<close> starts it on two
  zero-filled tables of \<open>absSize\<close> entries, leaves two tables of \<open>absSize\<close> entries,
  however many axes are declared. Entry \<open>i\<close> of the minimum (maximum) table is the
  minimum (maximum) of the last declared axis whose code is \<open>i\<close>, and zero when no declared
  axis has code \<open>i\<close>. These are the tables of the descriptor that a successful
  \<open>createJoystick\<close> hands to the activation call.
\<close>

theorem range_tables_by_axis_code:
  "(registerAxes P f axes (replicate (absSize P) 0, replicate (absSize P) 0) w
        = (Ok (absMin, absMax), w1) \<longrightarrow>
      length absMin = absSize P \<and> length absMax = absSize P
      \<and> (\<forall>i < absSize P.
           absMin ! i = (case lastDeclared axes i of None \<Rightarrow> 0 | Some axis \<Rightarrow> axisMin axis)
           \<and> absMax ! i = (case lastDeclared axes i of None \<Rightarrow> 0 | Some axis \<Rightarrow> axisMax axis)))
   \<and> (createJoystick P path nm axes buttons w = (Ok f, w') \<longrightarrow>
      (\<exists>dev. last (trace w') = SysCreate f dev
        \<and> length (Absmin dev) = absSize P \<and> length (Absmax dev) = absSize P
        \<and> (\<forall>i < absSize P.
             Absmin dev ! i = (case lastDeclared axes i of None \<Rightarrow> 0 | Some axis \<Rightarrow> axisMin axis)
             \<and> Absmax dev ! i =
                 (case lastDeclared axes i of None \<Rightarrow> 0 | Some axis \<Rightarrow> axisMax axis))))"
proof (rule conjI; rule impI)
  assume r: "registerAxes P f axes (replicate (absSize P) 0, replicate (absSize P) 0) w
        = (Ok (absMin, absMax), w1)"
  from registerAxes_tables [OF r]
  show "length absMin = absSize P \<and> length absMax = absSize P
      \<and> (\<forall>i < absSize P.
           absMin ! i = (case lastDeclared axes i of None \<Rightarrow> 0 | Some axis \<Rightarrow> axisMin axis)
           \<and> absMax ! i = (case lastDeclared axes i of None \<Rightarrow> 0 | Some axis \<Rightarrow> axisMax axis))"
    by (auto simp add: rangeTable_length rangeTable_nth split: option.splits)
next
  assume c: "createJoystick P path nm axes buttons w = (Ok f, w')"
  from createJoystick_Ok_conv [OF c]
  have a: "accepted P (trace w) (setupCalls P (fresh (handles w)) path nm axes buttons)"
    and b: "\<forall>axis \<in> set axes. unat (axisID axis) < absSize P" by simp_all
  from createJoystick_Ok [OF a b] c have f: "f = fresh (handles w)"
    and t: "trace w' = trace w @ setupCalls P (fresh (handles w)) path nm axes buttons"
    by simp_all
  from t f have l: "last (trace w') = SysCreate f (descriptor P nm axes)"
    by (simp only: last_setupCalls)
  have "length (Absmin (descriptor P nm axes)) = absSize P"
    and "length (Absmax (descriptor P nm axes)) = absSize P"
    by (simp_all add: descriptor_def rangeTable_length)
  moreover have "\<forall>i < absSize P.
          Absmin (descriptor P nm axes) ! i =
            (case lastDeclared axes i of None \<Rightarrow> 0 | Some axis \<Rightarrow> axisMin axis)
          \<and> Absmax (descriptor P nm axes) ! i =
            (case lastDeclared axes i of None \<Rightarrow> 0 | Some axis \<Rightarrow> axisMax axis)"
    by (auto simp add: descriptor_def rangeTable_nth split: option.splits)
  ultimately show "\<exists>dev. last (trace w') = SysCreate f dev
        \<and> length (Absmin dev) = absSize P \<and> length (Absmax dev) = absSize P
        \<and> (\<forall>i < absSize P.
             Absmin dev ! i = (case lastDeclared axes i of None \<Rightarrow> 0 | Some axis \<Rightarrow> axisMin axis)
             \<and> Absmax dev ! i =
                 (case lastDeclared axes i of None \<Rightarrow> 0 | Some axis \<Rightarrow> axisMax axis))"
    using l by blast
qed

theorem range_tables_by_axis_code_witness:
  "createJoystick (examplePlatform acceptAll) ''/dev/uinput'' testPad
      [\<lparr>axisID = 0, axisMin = - 32767, axisMax = 32767\<rparr>,
       \<lparr>axisID = 1, axisMin = - 5, axisMax = 5\<rparr>,
       \<lparr>axisID = 0, axisMin = - 100, axisMax = 100\<rparr>] [] world0
     = (Ok 1, snd (createJoystick (examplePlatform acceptAll) ''/dev/uinput'' testPad
      [\<lparr>axisID = 0, axisMin = - 32767, axisMax = 32767\<rparr>,
       \<lparr>axisID = 1, axisMin = - 5, axisMax = 5\<rparr>,
       \<lparr>axisID = 0, axisMin = - 100, axisMax = 100\<rparr>] [] world0))
   \<and> (\<exists>dev. last (trace (snd (createJoystick (examplePlatform acceptAll) ''/dev/uinput'' testPad
      [\<lparr>axisID = 0, axisMin = - 32767, axisMax = 32767\<rparr>,
       \<lparr>axisID = 1, axisMin = - 5, axisMax = 5\<rparr>,
       \<lparr>axisID = 0, axisMin = - 100, axisMax = 100\<rparr>] [] world0))) = SysCreate 1 dev
        \<and> length (Absmin dev) = 64 \<and> length (Absmax dev) = 64
        \<and> Absmin dev ! 0 = - 100 \<and> Absmax dev ! 0 = 100
        \<and> Absmin dev ! 1 = - 5 \<and> Absmax dev ! 1 = 5
        \<and> Absmin dev ! 2 = 0 \<and> Absmax dev ! 2 = 0)"
proof -
  let ?P = "examplePlatform acceptAll"
  let ?axes = "[\<lparr>axisID = 0, axisMin = - 32767, axisMax = 32767\<rparr>,
       \<lparr>axisID = 1, axisMin = - 5, axisMax = 5\<rparr>,
       \<lparr>axisID = 0, axisMin = - 100, axisMax = 100\<rparr>]"
  let ?w = "snd (createJoystick ?P ''/dev/uinput'' testPad ?axes [] world0)"
  have run: "createJoystick ?P ''/dev/uinput'' testPad ?axes [] world0 = (Ok 1, ?w)"
    by (simp add: run_defs acceptAll_def)
  from range_tables_by_axis_code [where P = ?P and axes = ?axes and path = "''/dev/uinput''"
      and nm = testPad and buttons = "[]" and w = world0 and f = 1 and w' = ?w] run
  obtain dev where
    l: "last (trace ?w) = SysCreate 1 dev"
    and n: "length (Absmin dev) = absSize ?P" "length (Absmax dev) = absSize ?P"
    and a: "\<forall>i < absSize ?P.
          Absmin dev ! i = (case lastDeclared ?axes i of None \<Rightarrow> 0 | Some axis \<Rightarrow> axisMin axis)
          \<and> Absmax dev ! i = (case lastDeclared ?axes i of None \<Rightarrow> 0 | Some axis \<Rightarrow> axisMax axis)"
    by blast
  have s: "absSize ?P = 64" by (simp add: examplePlatform_def)
  from a s have "Absmin dev ! 0 = - 100 \<and> Absmax dev ! 0 = 100"
    and "Absmin dev ! 1 = - 5 \<and> Absmax dev ! 1 = 5"
    and "Absmin dev ! 2 = 0 \<and> Absmax dev ! 2 = 0"
    by (simp_all add: lastDeclared_def)
  with l n s have "last (trace ?w) = SysCreate 1 dev
        \<and> length (Absmin dev) = 64 \<and> length (Absmax dev) = 64
        \<and> Absmin dev ! 0 = - 100 \<and> Absmax dev ! 0 = 100
        \<and> Absmin dev ! 1 = - 5 \<and> Absmax dev ! 1 = 5
        \<and> Absmin dev ! 2 = 0 \<and> Absmax dev ! 2 = 0" by simp
  then have "\<exists>dev. last (trace ?w) = SysCreate 1 dev
        \<and> length (Absmin dev) = 64 \<and> length (Absmax dev) = 64
        \<and> Absmin dev ! 0 = - 100 \<and> Absmax dev ! 0 = 100
        \<and> Absmin dev ! 1 = - 5 \<and> Absmax dev ! 1 = 5
        \<and> Absmin dev ! 2 = 0 \<and> Absmax dev ! 2 = 0" ..
  with run show ?thesis by (rule conjI)
qed



text \<open>
  C8. Whenever \<open>CreateJoystick\<close> succeeds, whatever the inputs, the argument of the
  activation call is the descriptor with the name in its fixed-width buffer, the identity
  bus type 0x06, vendor 0x01, product 0x02, version 0x03, and the two range tables. The
  name passed validation, so the buffer starts with the whole name.
\<close>

theorem descriptor_contents:
  assumes "CreateJoystick P path nm axes buttons w = (Ok vj, w')"
  shows "last (trace w') =
           SysCreate (deviceFile vj)
             \<lparr>Name = toUinputName P nm,
              ID = \<lparr>Bustype = 0x06, Vendor = 0x01, Product = 0x02, Version = 0x03\<rparr>,
              Absmin = rangeTable axisMin axes (replicate (absSize P) 0),
              Absmax = rangeTable axisMax axes (replicate (absSize P) 0)\<rparr>
     \<and> validateUinputName P nm = None
     \<and> take (length nm) (toUinputName P nm) = nm
     \<and> length (toUinputName P nm) = uinputMaxNameSize P"
proof -
  from CreateJoystick_Ok_conv [OF assms]
  have n: "validateUinputName P nm = None"
    and vj: "vj = \<lparr>name = nm, deviceFile = fresh (handles w)\<rparr>"
    and w': "w' = \<lparr>trace = trace w @ setupCalls P (fresh (handles w)) path nm axes buttons,
                   handles = fresh (handles w) # handles w\<rparr>" by simp_all
  from w' vj have "last (trace w') = SysCreate (deviceFile vj) (descriptor P nm axes)"
    by (simp add: last_setupCalls)
  with n toUinputName_valid [OF n] show ?thesis
    by (simp add: descriptor_def)
qed

theorem descriptor_contents_witness:
  "CreateJoystick (examplePlatform acceptAll) ''/dev/uinput'' testPad
      [\<lparr>axisID = 0, axisMin = - 32767, axisMax = 32767\<rparr>] [\<lparr>buttonID = 0\<rparr>] world0
     = (Ok \<lparr>name = testPad, deviceFile = 1\<rparr>,
        snd (CreateJoystick (examplePlatform acceptAll) ''/dev/uinput'' testPad
          [\<lparr>axisID = 0, axisMin = - 32767, axisMax = 32767\<rparr>] [\<lparr>buttonID = 0\<rparr>] world0))
   \<and> last (trace (snd (CreateJoystick (examplePlatform acceptAll) ''/dev/uinput'' testPad
          [\<lparr>axisID = 0, axisMin = - 32767, axisMax = 32767\<rparr>] [\<lparr>buttonID = 0\<rparr>] world0)))
     = SysCreate 1
         \<lparr>Name = testPad @ replicate 73 0,
          ID = \<lparr>Bustype = 6, Vendor = 1, Product = 2, Version = 3\<rparr>,
          Absmin = (replicate 64 0)[0 := - 32767],
          Absmax = (replicate 64 0)[0 := 32767]\<rparr>"
proof -
  let ?P = "examplePlatform acceptAll"
  let ?run = "CreateJoystick ?P ''/dev/uinput'' testPad
      [\<lparr>axisID = 0, axisMin = - 32767, axisMax = 32767\<rparr>] [\<lparr>buttonID = 0\<rparr>] world0"
  have run: "?run = (Ok \<lparr>name = testPad, deviceFile = 1\<rparr>, snd ?run)"
    by (simp add: run_defs acceptAll_def)
  from descriptor_contents [OF run]
  have "last (trace (snd ?run)) = SysCreate 1
         \<lparr>Name = testPad @ replicate 73 0,
          ID = \<lparr>Bustype = 6, Vendor = 1, Product = 2, Version = 3\<rparr>,
          Absmin = (replicate 64 0)[0 := - 32767],
          Absmax = (replicate 64 0)[0 := 32767]\<rparr>"
    by (simp add: examplePlatform_def toUinputName_def rangeTable_def testPad_def)
  with run show ?thesis by (rule conjI)
qed

text \<open>
  C9. The table writes are behind the registration call: \<open>CreateJoystick\<close> indexes a
  table out of bounds only with an axis code the kernel accepted. On a platform whose
  kernel accepts an axis code only when it is below \<open>absSize\<close>, \<open>CreateJoystick\<close>
  therefore never panics; and when a declared axis has a code the kernel never accepts,
  and the inputs are valid and the handle was opened, construction fails with
  CapabilityRegistrationError, the calls made stop at the first rejected call, the close
  of the handle follows it, and the open handles are those from before the call.
\<close>

theorem axis_code_out_of_range:
  "(fst (CreateJoystick P path nm axes buttons w) = Panic \<longrightarrow>
      (\<exists>axis \<in> set axes. \<not> unat (axisID axis) < absSize P
         \<and> (\<exists>tr. kernel P tr
               (SysIoctl (fresh (handles w)) (uiSetAbsBit P) (unat (axisID axis))))))
   \<and> ((\<forall>tr h a. kernel P tr (SysIoctl h (uiSetAbsBit P) a) \<longrightarrow> a < absSize P) \<longrightarrow>
      fst (CreateJoystick P path nm axes buttons w) \<noteq> Panic
      \<and> (axis \<in> set axes
           \<and> (\<forall>tr h. \<not> kernel P tr (SysIoctl h (uiSetAbsBit P) (unat (axisID axis))))
           \<and> pathOk P path \<and> validateUinputName P nm = None
           \<and> kernel P (trace w) (SysOpen path) \<longrightarrow>
         fst (CreateJoystick P path nm axes buttons w) = Err CapabilityRegistrationError
         \<and> handles (snd (CreateJoystick P path nm axes buttons w)) = handles w
         \<and> trace (snd (CreateJoystick P path nm axes buttons w)) =
             trace w
             @ attempt P (trace w) (setupCalls P (fresh (handles w)) path nm axes buttons)
             @ [SysClose (fresh (handles w))]
         \<and> \<not> accepted P (trace w)
               (registrationCalls P (fresh (handles w)) path buttons
                @ axisCalls P (fresh (handles w)) axes)))"
proof -
  obtain r w' where c: "CreateJoystick P path nm axes buttons w = (r, w')"
    by (cases "CreateJoystick P path nm axes buttons w")
  have pn: "r = Panic \<longrightarrow>
      (\<exists>axis \<in> set axes. \<not> unat (axisID axis) < absSize P
         \<and> (\<exists>tr. kernel P tr
               (SysIoctl (fresh (handles w)) (uiSetAbsBit P) (unat (axisID axis)))))"
  proof
    assume p: "r = Panic"
    with c have "createJoystick P path nm axes buttons w = (Panic, w')"
      by (cases "validateUinputName P nm"; cases "createJoystick P path nm axes buttons w";
          cases "fst (createJoystick P path nm axes buttons w)")
         (auto simp add: CreateJoystick_def validateDevicePath_def split: if_splits)
    from createJoystick_Panic [OF this]
    show "\<exists>axis \<in> set axes. \<not> unat (axisID axis) < absSize P
         \<and> (\<exists>tr. kernel P tr
               (SysIoctl (fresh (handles w)) (uiSetAbsBit P) (unat (axisID axis))))" by simp
  qed
  have "(\<forall>tr h a. kernel P tr (SysIoctl h (uiSetAbsBit P) a) \<longrightarrow> a < absSize P) \<longrightarrow>
      r \<noteq> Panic
      \<and> (axis \<in> set axes
           \<and> (\<forall>tr h. \<not> kernel P tr (SysIoctl h (uiSetAbsBit P) (unat (axisID axis))))
           \<and> pathOk P path \<and> validateUinputName P nm = None
           \<and> kernel P (trace w) (SysOpen path) \<longrightarrow>
         r = Err CapabilityRegistrationError
         \<and> handles w' = handles w
         \<and> trace w' =
             trace w
             @ attempt P (trace w) (setupCalls P (fresh (handles w)) path nm axes buttons)
             @ [SysClose (fresh (handles w))]
         \<and> \<not> accepted P (trace w)
               (registrationCalls P (fresh (handles w)) path buttons
                @ axisCalls P (fresh (handles w)) axes))"
  proof (rule impI)
    assume coh: "\<forall>tr h a. kernel P tr (SysIoctl h (uiSetAbsBit P) a) \<longrightarrow> a < absSize P"
    from coh pn have np: "r \<noteq> Panic" by blast
    have "axis \<in> set axes
           \<and> (\<forall>tr h. \<not> kernel P tr (SysIoctl h (uiSetAbsBit P) (unat (axisID axis))))
           \<and> pathOk P path \<and> validateUinputName P nm = None
           \<and> kernel P (trace w) (SysOpen path) \<longrightarrow>
         r = Err CapabilityRegistrationError
         \<and> handles w' = handles w
         \<and> trace w' =
             trace w
             @ attempt P (trace w) (setupCalls P (fresh (handles w)) path nm axes buttons)
             @ [SysClose (fresh (handles w))]
         \<and> \<not> accepted P (trace w)
               (registrationCalls P (fresh (handles w)) path buttons
                @ axisCalls P (fresh (handles w)) axes)"
    proof (rule impI, elim conjE)
      assume ax: "axis \<in> set axes"
        and rej: "\<forall>tr h. \<not> kernel P tr (SysIoctl h (uiSetAbsBit P) (unat (axisID axis)))"
        and p: "pathOk P path" and n: "validateUinputName P nm = None"
        and o: "kernel P (trace w) (SysOpen path)"
      from rej have rej': "\<forall>tr. \<not> kernel P tr
          (SysIoctl (fresh (handles w)) (uiSetAbsBit P) (unat (axisID axis)))" by simp
      have na: "\<not> accepted P (trace w)
              (registrationCalls P (fresh (handles w)) path buttons
               @ axisCalls P (fresh (handles w)) axes)"
        using axisCalls_rejected [OF ax rej'] by (simp add: accepted_append)
      then have ns:
        "\<not> accepted P (trace w) (setupCalls P (fresh (handles w)) path nm axes buttons)"
        by (auto simp add: setupCalls_def accepted_append)
      have "\<exists>e. r = Err e"
      proof (cases r)
        case (Ok vj)
        with c CreateJoystick_Ok_conv [of P path nm axes buttons w vj w'] ns
        show ?thesis by simp
      next
        case (Err e)
        then show ?thesis by simp
      next
        case Panic
        with np show ?thesis by simp
      qed
      then obtain e where e: "r = Err e" ..
      from CreateJoystick_Err_conv [OF c [unfolded e] p n]
      have "createJoystick P path nm axes buttons w = (Err e, w')" .
      from createJoystick_Err [OF this] o na e
      show "r = Err CapabilityRegistrationError
         \<and> handles w' = handles w
         \<and> trace w' =
             trace w
             @ attempt P (trace w) (setupCalls P (fresh (handles w)) path nm axes buttons)
             @ [SysClose (fresh (handles w))]
         \<and> \<not> accepted P (trace w)
               (registrationCalls P (fresh (handles w)) path buttons
                @ axisCalls P (fresh (handles w)) axes)" by simp
    qed
    with np show "r \<noteq> Panic
      \<and> (axis \<in> set axes
           \<and> (\<forall>tr h. \<not> kernel P tr (SysIoctl h (uiSetAbsBit P) (unat (axisID axis))))
           \<and> pathOk P path \<and> validateUinputName P nm = None
           \<and> kernel P (trace w) (SysOpen path) \<longrightarrow>
         r = Err CapabilityRegistrationError
         \<and> handles w' = handles w
         \<and> trace w' =
             trace w
             @ attempt P (trace w) (setupCalls P (fresh (handles w)) path nm axes buttons)
             @ [SysClose (fresh (handles w))]
         \<and> \<not> accepted P (trace w)
               (registrationCalls P (fresh (handles w)) path buttons
                @ axisCalls P (fresh (handles w)) axes))" by (rule conjI)
  qed
  with pn c show ?thesis by simp
qed

theorem axis_code_out_of_range_witness:
  "\<not> (\<exists>tr h a. kernel (examplePlatform (acceptAxesBelow 64)) tr
          (SysIoctl h (uiSetAbsBit (examplePlatform (acceptAxesBelow 64))) a)
        \<and> \<not> a < absSize (examplePlatform (acceptAxesBelow 64)))
   \<and> \<not> (\<exists>tr h. kernel (examplePlatform (acceptAxesBelow 64)) tr
          (SysIoctl h (uiSetAbsBit (examplePlatform (acceptAxesBelow 64))) (unat (64 :: u16))))
   \<and> fst (CreateJoystick (examplePlatform (acceptAxesBelow 64)) ''/dev/uinput'' testPad
          [\<lparr>axisID = 0, axisMin = - 32767, axisMax = 32767\<rparr>,
           \<lparr>axisID = 64, axisMin = - 1, axisMax = 1\<rparr>] [\<lparr>buttonID = 0\<rparr>] world0)
     = Err CapabilityRegistrationError
   \<and> handles (snd (CreateJoystick (examplePlatform (acceptAxesBelow 64)) ''/dev/uinput'' testPad
          [\<lparr>axisID = 0, axisMin = - 32767, axisMax = 32767\<rparr>,
           \<lparr>axisID = 64, axisMin = - 1, axisMax = 1\<rparr>] [\<lparr>buttonID = 0\<rparr>] world0)) = []
   \<and> trace (snd (CreateJoystick (examplePlatform (acceptAxesBelow 64)) ''/dev/uinput'' testPad
          [\<lparr>axisID = 0, axisMin = - 32767, axisMax = 32767\<rparr>,
           \<lparr>axisID = 64, axisMin = - 1, axisMax = 1\<rparr>] [\<lparr>buttonID = 0\<rparr>] world0))
     = [SysOpen ''/dev/uinput'', SysIoctl 1 0x40045564 1, SysIoctl 1 0x40045565 0,
        SysIoctl 1 0x40045564 3, SysIoctl 1 0x40045567 0, SysIoctl 1 0x40045567 64,
        SysClose 1]"
proof -
  let ?P = "examplePlatform (acceptAxesBelow 64)"
  let ?axes = "[\<lparr>axisID = 0, axisMin = - 32767, axisMax = 32767\<rparr>,
           \<lparr>axisID = 64, axisMin = - 1, axisMax = 1\<rparr>]"
  let ?run = "CreateJoystick ?P ''/dev/uinput'' testPad ?axes [\<lparr>buttonID = 0\<rparr>] world0"
  have coh: "\<forall>tr h a. kernel ?P tr (SysIoctl h (uiSetAbsBit ?P) a) \<longrightarrow> a < absSize ?P"
    by (simp add: examplePlatform_def acceptAxesBelow_def)
  have rej: "\<forall>tr h. \<not> kernel ?P tr (SysIoctl h (uiSetAbsBit ?P) (unat (64 :: u16)))"
    by (simp add: examplePlatform_def acceptAxesBelow_def)
  have pre: "\<lparr>axisID = 64, axisMin = - 1, axisMax = 1\<rparr> \<in> set ?axes
        \<and> (\<forall>tr h. \<not> kernel ?P tr (SysIoctl h (uiSetAbsBit ?P)
               (unat (axisID \<lparr>axisID = 64, axisMin = - 1, axisMax = 1\<rparr>))))
        \<and> pathOk ?P ''/dev/uinput'' \<and> validateUinputName ?P testPad = None
        \<and> kernel ?P (trace world0) (SysOpen ''/dev/uinput'')"
    using rej by (simp add: examplePlatform_def acceptAxesBelow_def validateUinputName_def
        testPad_def)
  from axis_code_out_of_range [of ?P "''/dev/uinput''" testPad ?axes "[\<lparr>buttonID = 0\<rparr>]" world0
      "\<lparr>axisID = 64, axisMin = - 1, axisMax = 1\<rparr>"] coh pre
  have e: "fst ?run = Err CapabilityRegistrationError"
    and h: "handles (snd ?run) = handles world0"
    by blast+
  have t: "trace (snd ?run) = [SysOpen ''/dev/uinput'', SysIoctl 1 0x40045564 1, SysIoctl 1 0x40045565 0,
        SysIoctl 1 0x40045564 3, SysIoctl 1 0x40045567 0, SysIoctl 1 0x40045567 64,
        SysClose 1]"
    by (simp add: run_defs acceptAxesBelow_def)
  from coh rej e h t show ?thesis by (simp add: world0_def)
qed



end
